theory Spec2Isabelle
  imports Main "HOL-Library.AList"
begin

section \<open>Values, errors and table data\<close>

text \<open>
  A shallow embedding of \<^verbatim>\<open>app/server/lib/GranularAccess.ts\<close>. JavaScript objects with
  dynamic keys and \<^verbatim>\<open>Map\<close>s are association lists in insertion order
  (\<^const>\<open>map_of\<close> reads a key, \<^const>\<open>AList.update\<close> is \<^verbatim>\<open>Map.set\<close>: it overwrites in
  place or appends). A \<^verbatim>\<open>Set\<close> is a list without repetitions in insertion order.
  Numbers are integers. A \<^verbatim>\<open>throw\<close> is the left alternative of a sum.
\<close>

datatype cellValue = CNull | CBool bool | CNum int | CStr string | CList "cellValue list"

datatype jsError =
    Error string
  | TypeError
  | ErrorWithCode string string

type_synonym 'a result = "jsError + 'a"

definition rbind :: "'a result \<Rightarrow> ('a \<Rightarrow> 'b result) \<Rightarrow> 'b result" where
  "rbind m f = (case m of Inl e \<Rightarrow> Inl e | Inr x \<Rightarrow> f x)"

fun mapResult :: "('a \<Rightarrow> 'b result) \<Rightarrow> 'a list \<Rightarrow> 'b list result" where
  "mapResult f [] = Inr []"
| "mapResult f (x # xs) =
     (case f x of
        Inl e \<Rightarrow> Inl e
      | Inr y \<Rightarrow> (case mapResult f xs of Inl e \<Rightarrow> Inl e | Inr ys \<Rightarrow> Inr (y # ys)))"

type_synonym colValues = "(string \<times> cellValue) list"
type_synonym bulkColValues = "(string \<times> cellValue list) list"

text \<open>\<^verbatim>\<open>TableDataAction = ['TableData', tableId, rowIds, columns]\<close>.\<close>

record tableDataAction =
  td_tableId :: string
  td_rowIds :: "int list"
  td_columns :: bulkColValues

text \<open>
  Modelled from the spec: the \<^verbatim>\<open>DocAction\<close> type of \<^verbatim>\<open>app/common/DocActions\<close> is not
  among the sources. A DocAction is a tuple \<^verbatim>\<open>[name, tableId, ...]\<close>, record-shaped (add,
  update, remove, singular or bulk, and the two table-data forms) or schema-shaped; the
  names are the ones \<^verbatim>\<open>_pruneColumns\<close> lists.
\<close>

datatype docAction =
    AddRecord string int colValues
  | BulkAddRecord string "int list" bulkColValues
  | RemoveRecord string int
  | BulkRemoveRecord string "int list"
  | UpdateRecord string int colValues
  | BulkUpdateRecord string "int list" bulkColValues
  | ReplaceTableData string "int list" bulkColValues
  | TableData string "int list" bulkColValues
  | AddColumn string string colValues
  | RemoveColumn string string
  | RenameColumn string string string
  | ModifyColumn string string colValues
  | AddTable string "colValues list"
  | RemoveTable string
  | RenameTable string string

fun getTableId :: "docAction \<Rightarrow> string" where
  "getTableId (AddRecord t _ _) = t"
| "getTableId (BulkAddRecord t _ _) = t"
| "getTableId (RemoveRecord t _) = t"
| "getTableId (BulkRemoveRecord t _) = t"
| "getTableId (UpdateRecord t _ _) = t"
| "getTableId (BulkUpdateRecord t _ _) = t"
| "getTableId (ReplaceTableData t _ _) = t"
| "getTableId (TableData t _ _) = t"
| "getTableId (AddColumn t _ _) = t"
| "getTableId (RemoveColumn t _) = t"
| "getTableId (RenameColumn t _ _) = t"
| "getTableId (ModifyColumn t _ _) = t"
| "getTableId (AddTable t _) = t"
| "getTableId (RemoveTable t) = t"
| "getTableId (RenameTable t _) = t"

fun isSchemaAction :: "docAction \<Rightarrow> bool" where
  "isSchemaAction (AddColumn _ _ _) = True"
| "isSchemaAction (RemoveColumn _ _) = True"
| "isSchemaAction (RenameColumn _ _ _) = True"
| "isSchemaAction (ModifyColumn _ _ _) = True"
| "isSchemaAction (AddTable _ _) = True"
| "isSchemaAction (RemoveTable _) = True"
| "isSchemaAction (RenameTable _ _) = True"
| "isSchemaAction _ = False"

definition asDocAction :: "tableDataAction \<Rightarrow> docAction" where
  "asDocAction d = TableData (td_tableId d) (td_rowIds d) (td_columns d)"

section \<open>Permission lattice\<close>

text \<open>
  Modelled from the spec: \<^verbatim>\<open>app/common/ACLPermissions\<close> is not among the sources. A
  permission set is six independent bits over the lattice values; \<^verbatim>\<open>mixedColumns\<close> only
  occurs on table verdicts. At run time the values are strings, so one type serves the
  partial, mixed and table permission sets.
\<close>

datatype permissionValue = Unset | Allow | Deny | AllowSome | DenySome | Mixed | MixedColumns

record permissionSet =
  read :: permissionValue
  perm_update :: permissionValue
  perm_create :: permissionValue
  perm_delete :: permissionValue
  perm_schemaEdit :: permissionValue
  perm_reserved :: permissionValue

text \<open>
  Modelled from the spec: \<^verbatim>\<open>mergePermissions(psets, combine)\<close> (the spec's \<^verbatim>\<open>foldTable\<close>)
  applies \<^verbatim>\<open>combine\<close> to each bit across the list of permission sets.
\<close>

definition mergePermissions ::
  "permissionSet list \<Rightarrow> (permissionValue list \<Rightarrow> permissionValue) \<Rightarrow> permissionSet" where
  "mergePermissions psets combine =
     \<lparr> read = combine (map read psets),
       perm_update = combine (map perm_update psets),
       perm_create = combine (map perm_create psets),
       perm_delete = combine (map perm_delete psets),
       perm_schemaEdit = combine (map perm_schemaEdit psets),
       perm_reserved = combine (map perm_reserved psets) \<rparr>"

text \<open>Modelled from the spec: \<^verbatim>\<open>emptyPermissionSet()\<close> is the identity, every bit unset.\<close>

definition emptyPermissionSet :: permissionSet where
  "emptyPermissionSet = mergePermissions [] (\<lambda>_. Unset)"

text \<open>
  Modelled from the spec: \<^verbatim>\<open>makePartialPermissions\<close> gives the weakened delta, where all
  \<^verbatim>\<open>allow\<close>/\<^verbatim>\<open>deny\<close> bits downgrade to \<^verbatim>\<open>allowSome\<close>/\<^verbatim>\<open>denySome\<close>.
\<close>

fun weaken :: "permissionValue \<Rightarrow> permissionValue" where
  "weaken Allow = AllowSome"
| "weaken Deny = DenySome"
| "weaken v = v"

definition makePartialPermissions :: "permissionSet \<Rightarrow> permissionSet" where
  "makePartialPermissions p = mergePermissions [p] (\<lambda>bits. weaken (hd bits))"

section \<open>Users, records and rules\<close>

text \<open>
  \<^verbatim>\<open>RecordView(data, index)\<close>: a row cursor into columnar table data. The index is
  \<^verbatim>\<open>undefined\<close> (\<^const>\<open>None\<close>) when \<^verbatim>\<open>_filterRowsAndCells\<close> looks up a row id that the
  snapshot does not hold.
\<close>

datatype recordView = RecordView tableDataAction "nat option"

datatype infoValue = Cell cellValue | Rec recordView | EmptyRecordView

type_synonym userInfo = "(string \<times> infoValue) list"

record aclMatchInput =
  in_user :: userInfo
  in_rec :: "recordView option"

text \<open>What a match predicate throws: an object with an optional \<^verbatim>\<open>code\<close> and a \<^verbatim>\<open>message\<close>.\<close>

datatype thrown = Thrown (thrown_code: "string option") (thrown_message: string)

record rule =
  aclFormula :: string
  matchFunc :: "(aclMatchInput \<Rightarrow> thrown + bool) option"
  permissions :: permissionSet
  permissionsText :: string

datatype colScope = AllColumns | ColIds "string list"

record ruleSet =
  rs_tableId :: string
  colIds :: colScope
  body :: "rule list"
  defaultPermissions :: permissionSet

text \<open>
  Functions of this repository and of its libraries that the source calls and that are not
  among the sources are parameters: the partial-permission merge, \<^verbatim>\<open>toMixed\<close> and
  \<^verbatim>\<open>parsePermissions\<close> of \<^verbatim>\<open>app/common/ACLPermissions\<close>, lodash's \<^verbatim>\<open>get(user, path)\<close>
  (\<^const>\<open>None\<close> is \<^verbatim>\<open>undefined\<close>) and \<^verbatim>\<open>JSON.stringify(v).toLowerCase()\<close>.
\<close>

record deps =
  mergePartialPermissions :: "permissionSet \<Rightarrow> permissionSet \<Rightarrow> permissionSet"
  toMixed :: "permissionSet \<Rightarrow> permissionSet"
  parsePermissions :: "string \<Rightarrow> permissionSet"
  lodashGet :: "userInfo \<Rightarrow> string \<Rightarrow> infoValue option"
  stringifyLower :: "cellValue \<Rightarrow> string"

subsection \<open>\<^verbatim>\<open>String(v)\<close>\<close>

fun digitsOf :: "nat \<Rightarrow> string" where
  "digitsOf n =
     (if n < 10 then [char_of (48 + n)] else digitsOf (n div 10) @ [char_of (48 + n mod 10)])"

declare digitsOf.simps [simp del]

definition joinComma :: "string list \<Rightarrow> string" where
  "joinComma xs = (case xs of [] \<Rightarrow> [] | y # ys \<Rightarrow> foldl (\<lambda>acc s. acc @ '','' @ s) y ys)"

fun cellString :: "cellValue \<Rightarrow> string" where
  "cellString CNull = ''null''"
| "cellString (CBool b) = (if b then ''true'' else ''false'')"
| "cellString (CNum i) = (if i < 0 then ''-'' @ digitsOf (nat (- i)) else digitsOf (nat i))"
| "cellString (CStr s) = s"
| "cellString (CList xs) =
     joinComma (map (\<lambda>x. case x of CNull \<Rightarrow> [] | _ \<Rightarrow> cellString x) xs)"

text \<open>\<^verbatim>\<open>String(user[name])\<close>; a missing key reads as \<^verbatim>\<open>undefined\<close>.\<close>

definition userFieldString :: "userInfo \<Rightarrow> string \<Rightarrow> string" where
  "userFieldString u name =
     (case map_of u name of
        None \<Rightarrow> ''undefined''
      | Some (Cell c) \<Rightarrow> cellString c
      | Some _ \<Rightarrow> ''[object Object]'')"

subsection \<open>The built-in default rule set\<close>

definition DEFAULT_RULE_SET :: "deps \<Rightarrow> ruleSet" where
  "DEFAULT_RULE_SET D =
     \<lparr> rs_tableId = ''*'',
       colIds = AllColumns,
       body =
         [ \<lparr> aclFormula = ''user.Role in ['' @ [CHR 0x27] @ ''editors'' @ [CHR 0x27] @ '', ''
                 @ [CHR 0x27] @ ''owners'' @ [CHR 0x27] @ '']'',
             matchFunc = Some (\<lambda>input. Inr (userFieldString (in_user input) ''Access''
                                             \<in> set [''editors'', ''owners''])),
             permissions = parsePermissions D ''all'',
             permissionsText = ''all'' \<rparr>,
           \<lparr> aclFormula = ''user.Role in ['' @ [CHR 0x27] @ ''viewers'' @ [CHR 0x27] @ '']'',
             matchFunc = Some (\<lambda>input. Inr (userFieldString (in_user input) ''Access''
                                             \<in> set [''viewers''])),
             permissions = parsePermissions D ''+R'',
             permissionsText = ''none'' \<rparr> ],
       defaultPermissions = parsePermissions D ''none'' \<rparr>"

section \<open>Rule evaluation\<close>

text \<open>
  \<^verbatim>\<open>rule.matchFunc!(input)\<close>: the field is optional, and calling \<^verbatim>\<open>undefined\<close> throws a
  TypeError (no \<^verbatim>\<open>code\<close>) inside the \<^verbatim>\<open>try\<close> block.
\<close>

definition callMatchFunc :: "rule \<Rightarrow> aclMatchInput \<Rightarrow> thrown + bool" where
  "callMatchFunc r input =
     (case matchFunc r of
        None \<Rightarrow> Inl (Thrown None ''rule.matchFunc is not a function'')
      | Some f \<Rightarrow> f input)"

definition warnMessage :: "string \<Rightarrow> string \<Rightarrow> string" where
  "warnMessage tableId msg = ''ACLRule for '' @ tableId @ '' failed: '' @ msg"

text \<open>
  One iteration of the loop of \<^verbatim>\<open>evaluateRule\<close>, on the accumulated permission set and
  the lines written by \<^verbatim>\<open>log.warn\<close> so far.
\<close>

definition ruleStep ::
  "deps \<Rightarrow> ruleSet \<Rightarrow> aclMatchInput \<Rightarrow> permissionSet \<times> string list \<Rightarrow> rule
     \<Rightarrow> permissionSet \<times> string list" where
  "ruleStep D rs input acc r =
     (case callMatchFunc r input of
        Inr matched \<Rightarrow>
          (if matched then (mergePartialPermissions D (fst acc) (permissions r), snd acc)
           else acc)
      | Inl e \<Rightarrow>
          (if thrown_code e = Some ''NEED_ROW_DATA''
           then (mergePartialPermissions D (fst acc) (makePartialPermissions (permissions r)),
                 snd acc)
           else (fst acc, snd acc @ [warnMessage (rs_tableId rs) (thrown_message e)])))"

definition evaluateRule ::
  "deps \<Rightarrow> ruleSet \<Rightarrow> aclMatchInput \<Rightarrow> permissionSet \<times> string list" where
  "evaluateRule D rs input =
     (let acc = foldl (ruleStep D rs input) (emptyPermissionSet, []) (body rs)
      in (mergePartialPermissions D (fst acc) (defaultPermissions rs), snd acc))"

section \<open>Sessions and the engine state\<close>

text \<open>
  Modelled from the spec: \<^verbatim>\<open>getDocSessionAccess\<close> and \<^verbatim>\<open>getDocSessionUser\<close> of
  \<^verbatim>\<open>app/server/lib/DocSession\<close> are not among the sources. A session resolves to an access
  role, one of owners, editors, viewers, none, and to an optional user
  \<^verbatim>\<open>{id, email, name}\<close>.
\<close>

datatype role = Owners | Editors | Viewers | NoAccess

record fullUser =
  fu_id :: int
  fu_email :: string
  fu_name :: string

record optDocSession =
  sessionAccess :: role
  sessionUser :: "fullUser option"

fun roleCell :: "role \<Rightarrow> cellValue" where
  "roleCell Owners = CStr ''owners''"
| "roleCell Editors = CStr ''editors''"
| "roleCell Viewers = CStr ''viewers''"
| "roleCell NoAccess = CNull"

record userAttributeRule =
  ua_name :: string
  ua_tableId :: string
  lookupColId :: string
  charId :: string

record characteristicTable =
  ct_tableId :: string
  ct_colId :: string
  rowNums :: "(string \<times> nat) list"
  ct_data :: tableDataAction

record query =
  q_tableId :: string
  q_filters :: "(string \<times> cellValue list) list"

text \<open>
  Modelled from the spec: \<^verbatim>\<open>DocData\<close> of \<^verbatim>\<open>app/common/DocData\<close> is not among the sources.
  It is a query interface over the current table contents:
  \<^verbatim>\<open>getTable(t)?.findRow(col, value)\<close> and \<^verbatim>\<open>getTable(t)?.getRecords()\<close>, both
  \<^verbatim>\<open>undefined\<close> (\<^const>\<open>None\<close>) when the table is absent. A record is its \<^verbatim>\<open>id\<close> and its
  other fields.
\<close>

record docData =
  findRow :: "string \<Rightarrow> string \<Rightarrow> cellValue \<Rightarrow> int option"
  getRecords :: "string \<Rightarrow> (int \<times> colValues) list option"

text \<open>
  The fields of \<^verbatim>\<open>GranularAccess\<close>. The cache \<^verbatim>\<open>_permissionInfoMap\<close> is left out: it is
  emptied by every \<^verbatim>\<open>update()\<close> that replaces the rules, and a \<^verbatim>\<open>PermissionInfo\<close> is a pure
  function of the rules, the characteristic tables and the session, so a cached evaluator
  answers as a fresh one. \<^verbatim>\<open>rowSnapshots\<close> is the content of the lazy cell
  \<^verbatim>\<open>_rowSnapshots\<close>, \<^const>\<open>None\<close> when the field is \<^verbatim>\<open>null\<close>.
\<close>

record granularAccess =
  haveRules :: bool
  columnRuleSets :: "(string \<times> ruleSet list) list"
  tableColumnMap :: "(string \<times> ruleSet) list"
  tableRuleSets :: "(string \<times> ruleSet) list"
  defaultRuleSet :: ruleSet
  tableIds :: "string list"
  userAttributeRules :: "(string \<times> userAttributeRule) list"
  characteristicTables :: "(string \<times> characteristicTable) list"
  rowSnapshots :: "(tableDataAction \<times> tableDataAction) list option"
  docData :: docData
  fetchQueryFromDB :: "query \<Rightarrow> tableDataAction result"

definition newGranularAccess ::
  "deps \<Rightarrow> docData \<Rightarrow> (query \<Rightarrow> tableDataAction result) \<Rightarrow> granularAccess" where
  "newGranularAccess D dd fetch =
     \<lparr> haveRules = False,
       columnRuleSets = [],
       tableColumnMap = [],
       tableRuleSets = [],
       defaultRuleSet = DEFAULT_RULE_SET D,
       tableIds = [],
       userAttributeRules = [],
       characteristicTables = [],
       rowSnapshots = None,
       docData = dd,
       fetchQueryFromDB = fetch \<rparr>"

definition getColumnRuleSet :: "granularAccess \<Rightarrow> string \<Rightarrow> string \<Rightarrow> ruleSet option" where
  "getColumnRuleSet ga tableId colId = map_of (tableColumnMap ga) (tableId @ '':'' @ colId)"

definition getAllColumnRuleSets :: "granularAccess \<Rightarrow> string \<Rightarrow> ruleSet list" where
  "getAllColumnRuleSets ga tableId =
     (case map_of (columnRuleSets ga) tableId of None \<Rightarrow> [] | Some rss \<Rightarrow> rss)"

definition getTableDefaultRuleSet :: "granularAccess \<Rightarrow> string \<Rightarrow> ruleSet option" where
  "getTableDefaultRuleSet ga tableId = map_of (tableRuleSets ga) tableId"

definition getDocDefaultRuleSet :: "granularAccess \<Rightarrow> ruleSet" where
  "getDocDefaultRuleSet ga = defaultRuleSet ga"

definition getAllTableIds :: "granularAccess \<Rightarrow> string list" where
  "getAllTableIds ga = tableIds ga"

section \<open>\<^verbatim>\<open>PermissionInfo\<close>\<close>

text \<open>
  A \<^verbatim>\<open>PermissionInfo\<close> is the engine and an input. Its memo \<^verbatim>\<open>_ruleResults\<close> caches a pure
  function of the rule set (each rule set is processed with one fallback only), so it is
  left out. The lines logged by \<^verbatim>\<open>evaluateRule\<close> are not part of a verdict.
\<close>

definition processRule ::
  "deps \<Rightarrow> aclMatchInput \<Rightarrow> ruleSet \<Rightarrow> permissionSet option \<Rightarrow> permissionSet" where
  "processRule D input rs defaultAccess =
     (let pset = fst (evaluateRule D rs input)
      in toMixed D (case defaultAccess of
                      Some d \<Rightarrow> mergePartialPermissions D pset d
                    | None \<Rightarrow> pset))"

definition getDocDefaultAccess :: "deps \<Rightarrow> granularAccess \<Rightarrow> aclMatchInput \<Rightarrow> permissionSet" where
  "getDocDefaultAccess D ga input = processRule D input (getDocDefaultRuleSet ga) None"

definition getTableDefaultAccess ::
  "deps \<Rightarrow> granularAccess \<Rightarrow> aclMatchInput \<Rightarrow> string \<Rightarrow> permissionSet" where
  "getTableDefaultAccess D ga input tableId =
     (case getTableDefaultRuleSet ga tableId of
        Some rs \<Rightarrow> processRule D input rs (Some (getDocDefaultAccess D ga input))
      | None \<Rightarrow> getDocDefaultAccess D ga input)"

definition processColumnRule ::
  "deps \<Rightarrow> granularAccess \<Rightarrow> aclMatchInput \<Rightarrow> ruleSet \<Rightarrow> permissionSet" where
  "processColumnRule D ga input rs =
     processRule D input rs (Some (getTableDefaultAccess D ga input (rs_tableId rs)))"

definition pi_getColumnAccess ::
  "deps \<Rightarrow> granularAccess \<Rightarrow> aclMatchInput \<Rightarrow> string \<Rightarrow> string \<Rightarrow> permissionSet" where
  "pi_getColumnAccess D ga input tableId colId =
     (case getColumnRuleSet ga tableId colId of
        Some rs \<Rightarrow> processColumnRule D ga input rs
      | None \<Rightarrow> getTableDefaultAccess D ga input tableId)"

definition tableBits :: "permissionValue list \<Rightarrow> permissionValue" where
  "tableBits bits =
     (if list_all (\<lambda>b. b = Allow) bits then Allow
      else if list_all (\<lambda>b. b = Deny) bits then Deny
      else if list_all (\<lambda>b. b = Allow \<or> b = Deny) bits then MixedColumns
      else Mixed)"

definition pi_getTableAccess ::
  "deps \<Rightarrow> granularAccess \<Rightarrow> aclMatchInput \<Rightarrow> string \<Rightarrow> permissionSet" where
  "pi_getTableAccess D ga input tableId =
     mergePermissions
       (map (processColumnRule D ga input) (getAllColumnRuleSets ga tableId)
          @ [getTableDefaultAccess D ga input tableId])
       tableBits"

definition fullBits :: "permissionValue list \<Rightarrow> permissionValue" where
  "fullBits bits =
     (if list_all (\<lambda>b. b = Allow) bits then Allow
      else if list_all (\<lambda>b. b = Deny) bits then Deny
      else Mixed)"

definition pi_getFullAccess :: "deps \<Rightarrow> granularAccess \<Rightarrow> aclMatchInput \<Rightarrow> permissionSet" where
  "pi_getFullAccess D ga input =
     mergePermissions
       (map (pi_getTableAccess D ga input) (getAllTableIds ga) @ [getDocDefaultAccess D ga input])
       fullBits"

section \<open>User information\<close>

text \<open>
  \<^verbatim>\<open>RecordView.get(colId)\<close>. A read past the end of an array, or at an undefined index, is
  \<^verbatim>\<open>undefined\<close> (\<^const>\<open>None\<close>); a column that the data does not have throws.
\<close>

fun RecordView_get :: "recordView \<Rightarrow> string \<Rightarrow> cellValue option result" where
  "RecordView_get (RecordView d i) colId =
     (if colId = ''id''
      then Inr (case i of
                  None \<Rightarrow> None
                | Some n \<Rightarrow> if n < length (td_rowIds d) then Some (CNum (td_rowIds d ! n)) else None)
      else (case map_of (td_columns d) colId of
              None \<Rightarrow> Inl TypeError
            | Some vs \<Rightarrow>
                Inr (case i of
                       None \<Rightarrow> None
                     | Some n \<Rightarrow> if n < length vs then Some (vs ! n) else None)))"

text \<open>
  \<^verbatim>\<open>_normalizeValue\<close>. A record collapses to its \<^verbatim>\<open>id\<close>. \<^verbatim>\<open>JSON.stringify(undefined)\<close> is
  \<^verbatim>\<open>undefined\<close>, and \<^verbatim>\<open>toLowerCase\<close> on it throws.
\<close>

definition normalizeValue :: "deps \<Rightarrow> infoValue option \<Rightarrow> string result" where
  "normalizeValue D v =
     (case v of
        None \<Rightarrow> Inl TypeError
      | Some (Cell c) \<Rightarrow> Inr (stringifyLower D c)
      | Some (Rec rv) \<Rightarrow>
          (case RecordView_get rv ''id'' of
             Inl e \<Rightarrow> Inl e
           | Inr None \<Rightarrow> Inl TypeError
           | Inr (Some c) \<Rightarrow> Inr (stringifyLower D c))
      | Some EmptyRecordView \<Rightarrow> Inr (stringifyLower D CNull))"

text \<open>
  The names that \<^verbatim>\<open>name in user\<close> finds on an object literal besides its own keys: the
  properties of \<^verbatim>\<open>Object.prototype\<close>.
\<close>

definition objectPrototypeNames :: "string list" where
  "objectPrototypeNames =
     [''constructor'', ''hasOwnProperty'', ''isPrototypeOf'', ''propertyIsEnumerable'',
      ''toLocaleString'', ''toString'', ''valueOf'', ''__proto__'', ''__defineGetter__'',
      ''__defineSetter__'', ''__lookupGetter__'', ''__lookupSetter__'']"

definition orNull :: "cellValue \<Rightarrow> cellValue" where
  "orNull v = (if v = CNum 0 \<or> v = CStr [] \<or> v = CBool False then CNull else v)"

text \<open>One iteration of the loop of \<^verbatim>\<open>_getUser\<close> (the warning it logs is not kept).\<close>

definition getUserStep ::
  "deps \<Rightarrow> granularAccess \<Rightarrow> userInfo \<Rightarrow> userAttributeRule \<Rightarrow> userInfo result" where
  "getUserStep D ga u clause =
     (if ua_name clause \<in> set (map fst u) \<union> set objectPrototypeNames then Inr u
      else
        (let u1 = AList.update (ua_name clause) EmptyRecordView u
         in case map_of (characteristicTables ga) (ua_name clause) of
              None \<Rightarrow> Inr u1
            | Some ct \<Rightarrow>
                rbind (normalizeValue D (lodashGet D u1 (charId clause)))
                  (\<lambda>character.
                     case map_of (rowNums ct) character of
                       None \<Rightarrow> Inr u1
                     | Some rowNum \<Rightarrow>
                         Inr (AList.update (ua_name clause)
                                (Rec (RecordView (ct_data ct) (Some rowNum))) u1))))"

fun foldResult :: "('b \<Rightarrow> 'a \<Rightarrow> 'b result) \<Rightarrow> 'b \<Rightarrow> 'a list \<Rightarrow> 'b result" where
  "foldResult f acc [] = Inr acc"
| "foldResult f acc (x # xs) =
     (case f acc x of Inl e \<Rightarrow> Inl e | Inr acc' \<Rightarrow> foldResult f acc' xs)"

definition getUser :: "deps \<Rightarrow> granularAccess \<Rightarrow> optDocSession \<Rightarrow> userInfo result" where
  "getUser D ga docSession =
     (let access = sessionAccess docSession;
          fullUser = sessionUser docSession;
          u = [(''Access'', Cell (roleCell access)),
               (''UserID'', Cell (case fullUser of None \<Rightarrow> CNull
                                  | Some f \<Rightarrow> orNull (CNum (fu_id f)))),
               (''Email'', Cell (case fullUser of None \<Rightarrow> CNull
                                 | Some f \<Rightarrow> orNull (CStr (fu_email f)))),
               (''Name'', Cell (case fullUser of None \<Rightarrow> CNull
                                | Some f \<Rightarrow> orNull (CStr (fu_name f))))]
      in foldResult (getUserStep D ga) u (map snd (userAttributeRules ga)))"

text \<open>\<^verbatim>\<open>_getAccess\<close>: the evaluator of a session, with no record in its input.\<close>

definition getAccess :: "deps \<Rightarrow> granularAccess \<Rightarrow> optDocSession \<Rightarrow> aclMatchInput result" where
  "getAccess D ga docSession =
     rbind (getUser D ga docSession) (\<lambda>u. Inr \<lparr> in_user = u, in_rec = None \<rparr>)"

section \<open>Access queries\<close>

definition getTableAccess ::
  "deps \<Rightarrow> granularAccess \<Rightarrow> optDocSession \<Rightarrow> string \<Rightarrow> permissionSet result" where
  "getTableAccess D ga docSession tableId =
     rbind (getAccess D ga docSession) (\<lambda>permInfo. Inr (pi_getTableAccess D ga permInfo tableId))"

definition hasTableAccess ::
  "deps \<Rightarrow> granularAccess \<Rightarrow> optDocSession \<Rightarrow> string \<Rightarrow> bool result" where
  "hasTableAccess D ga docSession tableId =
     rbind (getTableAccess D ga docSession tableId) (\<lambda>pset. Inr (read pset \<noteq> Deny))"

definition hasQueryAccess ::
  "deps \<Rightarrow> granularAccess \<Rightarrow> optDocSession \<Rightarrow> query \<Rightarrow> bool result" where
  "hasQueryAccess D ga docSession q = hasTableAccess D ga docSession (q_tableId q)"

definition canReadEverything :: "deps \<Rightarrow> granularAccess \<Rightarrow> optDocSession \<Rightarrow> bool result" where
  "canReadEverything D ga docSession =
     rbind (getAccess D ga docSession)
       (\<lambda>permInfo. Inr (read (pi_getFullAccess D ga permInfo) = Allow))"

definition hasFullAccess :: "optDocSession \<Rightarrow> bool" where
  "hasFullAccess docSession = (sessionAccess docSession = Owners)"

definition hasNuancedAccess :: "granularAccess \<Rightarrow> optDocSession \<Rightarrow> bool" where
  "hasNuancedAccess ga docSession =
     (if \<not> haveRules ga then False else \<not> hasFullAccess docSession)"

subsection \<open>Action groups\<close>

text \<open>
  An \<^verbatim>\<open>ActionGroup\<close> has a summary and a description among its fields; the others are the
  record's extension. \<^verbatim>\<open>createEmptyActionSummary()\<close> of \<^verbatim>\<open>app/common/ActionSummary\<close> is
  not among the sources: its value is an argument.
\<close>

record 's actionGroup =
  actionSummary :: 's
  desc :: string

definition allowActionGroup ::
  "deps \<Rightarrow> granularAccess \<Rightarrow> optDocSession \<Rightarrow> ('s, 'm) actionGroup_scheme \<Rightarrow> bool result" where
  "allowActionGroup D ga docSession actionGroup = canReadEverything D ga docSession"

definition filterActionGroup ::
  "deps \<Rightarrow> 's \<Rightarrow> granularAccess \<Rightarrow> optDocSession \<Rightarrow> ('s, 'm) actionGroup_scheme
     \<Rightarrow> ('s, 'm) actionGroup_scheme result" where
  "filterActionGroup D createEmptyActionSummary ga docSession actionGroup =
     rbind (allowActionGroup D ga docSession actionGroup)
       (\<lambda>allowed.
          if \<not> allowed then Inr actionGroup
          else Inr (actionGroup \<lparr> actionSummary := createEmptyActionSummary, desc := [] \<rparr>))"

section \<open>Applying user actions\<close>

text \<open>
  A \<^verbatim>\<open>UserAction\<close> is an array of arbitrary JSON values whose first element is the action
  name; the wrapped forms hold an array of further actions, read without a check
  (\<^verbatim>\<open>a[1] as UserAction[]\<close>).
\<close>

datatype jsValue =
    JUndefined | JNull | JBool bool | JNum int | JStr string | JArray "jsValue list"

definition ACTION_WITH_TABLE_ID :: "string list" where
  "ACTION_WITH_TABLE_ID =
     [''AddRecord'', ''BulkAddRecord'', ''UpdateRecord'', ''BulkUpdateRecord'',
      ''RemoveRecord'', ''BulkRemoveRecord'', ''ReplaceTableData'', ''TableData'']"

definition SPECIAL_ACTIONS :: "string list" where
  "SPECIAL_ACTIONS =
     [''InitNewDoc'', ''EvalCode'', ''SetDisplayFormula'', ''CreateViewSection'',
      ''UpdateSummaryViewSection'', ''DetachSummaryViewSection'', ''GenImporterView'',
      ''TransformAndFinishImport'', ''AddColumn'', ''RemoveColumn'', ''RenameColumn'',
      ''ModifyColumn'', ''AddTable'', ''RemoveTable'', ''RenameTable'', ''AddView'',
      ''CopyFromColumn'', ''AddHiddenColumn'', ''RemoveViewSection'']"

definition SURPRISING_ACTIONS :: "string list" where
  "SURPRISING_ACTIONS = [''RemoveView'', ''AddViewSection'']"

definition OK_ACTIONS :: "string list" where
  "OK_ACTIONS = [''Calculate'', ''AddEmptyTable'']"

text \<open>\<^verbatim>\<open>a[i]\<close> on a JavaScript value: it throws on \<^verbatim>\<open>null\<close> and \<^verbatim>\<open>undefined\<close>.\<close>

fun jsIndex :: "jsValue \<Rightarrow> nat \<Rightarrow> jsValue result" where
  "jsIndex (JArray xs) i = Inr (if i < length xs then xs ! i else JUndefined)"
| "jsIndex (JStr s) i = Inr (if i < length s then JStr [s ! i] else JUndefined)"
| "jsIndex JUndefined i = Inl TypeError"
| "jsIndex JNull i = Inl TypeError"
| "jsIndex _ i = Inr JUndefined"

text \<open>\<^verbatim>\<open>set.has(name)\<close> for a set of strings.\<close>

fun hasName :: "string list \<Rightarrow> jsValue \<Rightarrow> bool" where
  "hasName names (JStr s) = (s \<in> set names)"
| "hasName names _ = False"

text \<open>\<^verbatim>\<open>Array.prototype.every\<close>: it stops at the first element that fails.\<close>

fun everyResult :: "('a \<Rightarrow> bool result) \<Rightarrow> 'a list \<Rightarrow> bool result" where
  "everyResult f [] = Inr True"
| "everyResult f (x # xs) =
     (case f x of
        Inl e \<Rightarrow> Inl e
      | Inr ok \<Rightarrow> if ok then everyResult f xs else Inr False)"

text \<open>
  The part of \<^verbatim>\<open>canApplyUserAction\<close> for an action with a table id: \<^verbatim>\<open>a[1]\<close> is read as
  a string, and \<^verbatim>\<open>startsWith\<close> throws when it is not one.
\<close>

definition canApplyTableAction ::
  "deps \<Rightarrow> granularAccess \<Rightarrow> optDocSession \<Rightarrow> jsValue \<Rightarrow> bool result" where
  "canApplyTableAction D ga docSession a1 =
     (case a1 of
        JStr tableId \<Rightarrow>
          if take 7 tableId = ''_grist_'' then Inr (\<not> hasNuancedAccess ga docSession)
          else rbind (getTableAccess D ga docSession tableId)
                 (\<lambda>tableAccess. Inr (read tableAccess = Allow))
      | _ \<Rightarrow> Inl TypeError)"

fun canApplyUserAction ::
      "deps \<Rightarrow> granularAccess \<Rightarrow> optDocSession \<Rightarrow> jsValue \<Rightarrow> bool result"
  and canApplyUserActions ::
      "deps \<Rightarrow> granularAccess \<Rightarrow> optDocSession \<Rightarrow> jsValue list \<Rightarrow> bool result" where
  "canApplyUserAction D ga docSession (JArray xs) =
     (let name = (if xs = [] then JUndefined else hd xs);
          a1 = (if 1 < length xs then xs ! 1 else JUndefined)
      in if hasName OK_ACTIONS name then Inr True
         else if hasName SPECIAL_ACTIONS name then Inr (\<not> hasNuancedAccess ga docSession)
         else if hasName SURPRISING_ACTIONS name then Inr (hasFullAccess docSession)
         else if name = JStr ''ApplyUndoActions'' \<or> name = JStr ''ApplyDocActions''
         then (case xs of
                 _ # JArray actions # _ \<Rightarrow> canApplyUserActions D ga docSession actions
               | _ \<Rightarrow> Inl TypeError)
         else if hasName ACTION_WITH_TABLE_ID name
         then canApplyTableAction D ga docSession a1
         else Inr False)"
| "canApplyUserAction D ga docSession (JStr s) =
     (let name = (if s = [] then JUndefined else JStr [hd s])
      in if hasName OK_ACTIONS name then Inr True
         else if hasName SPECIAL_ACTIONS name then Inr (\<not> hasNuancedAccess ga docSession)
         else if hasName SURPRISING_ACTIONS name then Inr (hasFullAccess docSession)
         else Inr False)"
| "canApplyUserAction D ga docSession JUndefined = Inl TypeError"
| "canApplyUserAction D ga docSession JNull = Inl TypeError"
| "canApplyUserAction D ga docSession (JBool b) = Inr False"
| "canApplyUserAction D ga docSession (JNum n) = Inr False"
| "canApplyUserActions D ga docSession [] = Inr True"
| "canApplyUserActions D ga docSession (a # as) =
     (case canApplyUserAction D ga docSession a of
        Inl e \<Rightarrow> Inl e
      | Inr ok \<Rightarrow> if ok then canApplyUserActions D ga docSession as else Inr False)"

section \<open>Rebuilding the rule store\<close>

text \<open>
  \<^verbatim>\<open>readAclRules\<close> of \<^verbatim>\<open>app/common/GranularAccessClause\<close> is not among the sources: what it
  returns is the argument of \<^verbatim>\<open>update\<close>.
\<close>

record aclRules =
  ruleSets :: "ruleSet list"
  userAttributes :: "userAttributeRule list"

text \<open>The local maps that \<^verbatim>\<open>update\<close> builds before it touches the engine.\<close>

record ruleIndexes =
  ix_colRuleSets :: "(string \<times> ruleSet list) list"
  ix_tableColMap :: "(string \<times> ruleSet) list"
  ix_tableRuleSets :: "(string \<times> ruleSet) list"
  ix_defaultRuleSet :: ruleSet

definition colScopeString :: "colScope \<Rightarrow> string" where
  "colScopeString c = (case c of AllColumns \<Rightarrow> ''*'' | ColIds cs \<Rightarrow> joinComma cs)"

definition updateStep :: "deps \<Rightarrow> ruleIndexes \<Rightarrow> ruleSet \<Rightarrow> ruleIndexes result" where
  "updateStep D ix rs =
     (if rs_tableId rs = ''*''
      then (if colIds rs = AllColumns
            then Inr (ix \<lparr> ix_defaultRuleSet :=
                       rs \<lparr> body := body rs @ body (DEFAULT_RULE_SET D),
                            defaultPermissions := defaultPermissions (DEFAULT_RULE_SET D) \<rparr> \<rparr>)
            else Inl (Error (''Invalid rule for tableId '' @ rs_tableId rs @ '', colIds ''
                              @ colScopeString (colIds rs))))
      else (case colIds rs of
              AllColumns \<Rightarrow>
                (if map_of (ix_tableRuleSets ix) (rs_tableId rs) \<noteq> None
                 then Inl (Error (''Invalid duplicate default rule for '' @ rs_tableId rs))
                 else Inr (ix \<lparr> ix_tableRuleSets :=
                            AList.update (rs_tableId rs) rs (ix_tableRuleSets ix) \<rparr>))
            | ColIds cs \<Rightarrow>
                Inr (ix \<lparr> ix_colRuleSets :=
                            AList.update (rs_tableId rs)
                              ((case map_of (ix_colRuleSets ix) (rs_tableId rs) of
                                  None \<Rightarrow> [] | Some rss \<Rightarrow> rss) @ [rs])
                              (ix_colRuleSets ix),
                          ix_tableColMap :=
                            foldl (\<lambda>m colId. AList.update (rs_tableId rs @ '':'' @ colId) rs m)
                              (ix_tableColMap ix) cs \<rparr>)))"

text \<open>\<^verbatim>\<open>[...new Set(xs)]\<close>: the first occurrence of each element, in order.\<close>

fun uniqueFirst :: "'a list \<Rightarrow> 'a list \<Rightarrow> 'a list" where
  "uniqueFirst seen [] = []"
| "uniqueFirst seen (x # xs) =
     (if x \<in> set seen then uniqueFirst seen xs else x # uniqueFirst (x # seen) xs)"

text \<open>
  A loop over a statement that changes the engine and may throw: the state reached, and
  the error when it stopped early.
\<close>

fun forEachState ::
  "('s \<Rightarrow> 'a \<Rightarrow> jsError option \<times> 's) \<Rightarrow> 's \<Rightarrow> 'a list \<Rightarrow> jsError option \<times> 's" where
  "forEachState f st [] = (None, st)"
| "forEachState f st (x # xs) =
     (case f st x of
        (Some e, st') \<Rightarrow> (Some e, st')
      | (None, st') \<Rightarrow> forEachState f st' xs)"

definition updateCharacteristicTable ::
  "deps \<Rightarrow> granularAccess \<Rightarrow> userAttributeRule \<Rightarrow> jsError option \<times> granularAccess" where
  "updateCharacteristicTable D ga clause =
     (if map_of (characteristicTables ga) (ua_name clause) \<noteq> None
      then (Some (Error (''User attribute '' @ ua_name clause @ '' ignored: duplicate name'')), ga)
      else
        (case fetchQueryFromDB ga \<lparr> q_tableId = ua_tableId clause, q_filters = [] \<rparr> of
           Inl e \<Rightarrow> (Some e, ga)
         | Inr data \<Rightarrow>
             (case map_of (td_columns data) (lookupColId clause) of
                None \<Rightarrow> (Some TypeError, ga)
              | Some matches \<Rightarrow>
                  (case foldResult
                          (\<lambda>m i. rbind (normalizeValue D (Some (Cell (matches ! i))))
                                   (\<lambda>key. Inr (AList.update key i m)))
                          [] [0 ..< length matches] of
                     Inl e \<Rightarrow> (Some e, ga)
                   | Inr rowNums' \<Rightarrow>
                       (None,
                        ga \<lparr> characteristicTables :=
                               AList.update (ua_name clause)
                                 \<lparr> ct_tableId = ua_tableId clause,
                                   ct_colId = lookupColId clause,
                                   rowNums = rowNums',
                                   ct_data = data \<rparr>
                                 (characteristicTables ga) \<rparr>)))))"

definition updateCharacteristicTables ::
  "deps \<Rightarrow> granularAccess \<Rightarrow> jsError option \<times> granularAccess" where
  "updateCharacteristicTables D ga =
     forEachState (updateCharacteristicTable D) (ga \<lparr> characteristicTables := [] \<rparr>)
       (map snd (userAttributeRules ga))"

text \<open>
  \<^verbatim>\<open>update()\<close>: the error it throws, if any, and the engine it leaves behind. The flag
  \<^verbatim>\<open>_haveRules\<close> is assigned before the loop over the rule sets; the other fields after it.
\<close>

definition update ::
  "deps \<Rightarrow> aclRules \<Rightarrow> granularAccess \<Rightarrow> jsError option \<times> granularAccess" where
  "update D acl ga =
     (let userAttributeMap =
            foldl (\<lambda>m userAttr. AList.update (ua_name userAttr) userAttr m) [] (userAttributes acl);
          ga1 = ga \<lparr> haveRules := (0 < length (ruleSets acl)) \<rparr>
      in case foldResult (updateStep D)
                \<lparr> ix_colRuleSets = [], ix_tableColMap = [], ix_tableRuleSets = [],
                  ix_defaultRuleSet = DEFAULT_RULE_SET D \<rparr>
                (ruleSets acl) of
           Inl e \<Rightarrow> (Some e, ga1)
         | Inr ix \<Rightarrow>
             updateCharacteristicTables D
               (ga1 \<lparr> columnRuleSets := ix_colRuleSets ix,
                      tableColumnMap := ix_tableColMap ix,
                      tableRuleSets := ix_tableRuleSets ix,
                      defaultRuleSet := ix_defaultRuleSet ix,
                      tableIds := uniqueFirst []
                                    (map fst (ix_colRuleSets ix) @ map fst (ix_tableRuleSets ix)),
                      userAttributeRules := userAttributeMap \<rparr>))"

text \<open>
  The engines that can exist: a new one, one after a call of \<^verbatim>\<open>update\<close> (whether it threw
  or not), and one whose document, store and row snapshots have changed from outside.
\<close>

inductive reachable :: "deps \<Rightarrow> granularAccess \<Rightarrow> bool" for D :: deps where
  reachable_new: "reachable D (newGranularAccess D dd fetch)"
| reachable_update: "reachable D ga \<Longrightarrow> reachable D (snd (update D acl ga))"
| reachable_outside:
    "reachable D ga \<Longrightarrow>
     reachable D (ga \<lparr> docData := dd, fetchQueryFromDB := fetch, rowSnapshots := snaps \<rparr>)"

section \<open>Pruning columns and rows of outgoing actions\<close>

text \<open>\<^verbatim>\<open>_filterColumns\<close>: delete the keys that the predicate rejects.\<close>

definition filterColumns :: "(string \<times> 'v) list \<Rightarrow> (string \<Rightarrow> bool) \<Rightarrow> (string \<times> 'v) list" where
  "filterColumns data shouldInclude = filter (\<lambda>kv. shouldInclude (fst kv)) data"

definition colReadable ::
  "deps \<Rightarrow> granularAccess \<Rightarrow> aclMatchInput \<Rightarrow> string \<Rightarrow> string \<Rightarrow> bool" where
  "colReadable D ga permInfo tableId colId =
     (read (pi_getColumnAccess D ga permInfo tableId colId) \<noteq> Deny)"

definition needReload :: jsError where
  "needReload = ErrorWithCode ''NEED_RELOAD'' ''document needs reload''"

definition columnSchemaAction ::
  "deps \<Rightarrow> granularAccess \<Rightarrow> aclMatchInput \<Rightarrow> string \<Rightarrow> string \<Rightarrow> docAction option result" where
  "columnSchemaAction D ga permInfo tableId colId =
     (if read (pi_getColumnAccess D ga permInfo tableId colId) = Deny then Inr None
      else Inl needReload)"

text \<open>\<^verbatim>\<open>_pruneColumns\<close>; \<^const>\<open>None\<close> is \<^verbatim>\<open>null\<close>.\<close>

fun pruneColumns ::
  "deps \<Rightarrow> granularAccess \<Rightarrow> docAction \<Rightarrow> aclMatchInput \<Rightarrow> string \<Rightarrow> docAction option result" where
  "pruneColumns D ga (RemoveRecord t r) permInfo tableId = Inr (Some (RemoveRecord t r))"
| "pruneColumns D ga (BulkRemoveRecord t rs) permInfo tableId = Inr (Some (BulkRemoveRecord t rs))"
| "pruneColumns D ga (AddRecord t r cv) permInfo tableId =
     (let cv' = filterColumns cv (colReadable D ga permInfo tableId)
      in Inr (if length cv' = 0 then None else Some (AddRecord t r cv')))"
| "pruneColumns D ga (BulkAddRecord t rs cv) permInfo tableId =
     (let cv' = filterColumns cv (colReadable D ga permInfo tableId)
      in Inr (if length cv' = 0 then None else Some (BulkAddRecord t rs cv')))"
| "pruneColumns D ga (UpdateRecord t r cv) permInfo tableId =
     (let cv' = filterColumns cv (colReadable D ga permInfo tableId)
      in Inr (if length cv' = 0 then None else Some (UpdateRecord t r cv')))"
| "pruneColumns D ga (BulkUpdateRecord t rs cv) permInfo tableId =
     (let cv' = filterColumns cv (colReadable D ga permInfo tableId)
      in Inr (if length cv' = 0 then None else Some (BulkUpdateRecord t rs cv')))"
| "pruneColumns D ga (ReplaceTableData t rs cv) permInfo tableId =
     (let cv' = filterColumns cv (colReadable D ga permInfo tableId)
      in Inr (if length cv' = 0 then None else Some (ReplaceTableData t rs cv')))"
| "pruneColumns D ga (TableData t rs cv) permInfo tableId =
     (let cv' = filterColumns cv (colReadable D ga permInfo tableId)
      in Inr (if length cv' = 0 then None else Some (TableData t rs cv')))"
| "pruneColumns D ga (AddColumn t c info) permInfo tableId =
     columnSchemaAction D ga permInfo tableId c"
| "pruneColumns D ga (RemoveColumn t c) permInfo tableId =
     columnSchemaAction D ga permInfo tableId c"
| "pruneColumns D ga (RenameColumn t c c') permInfo tableId =
     columnSchemaAction D ga permInfo tableId c"
| "pruneColumns D ga (ModifyColumn t c info) permInfo tableId =
     columnSchemaAction D ga permInfo tableId c"
| "pruneColumns D ga a permInfo tableId = Inr (Some a)"

text \<open>
  Modelled from the spec: \<^verbatim>\<open>getRowIdsFromDocAction\<close> of \<^verbatim>\<open>app/server/lib/RowAccess\<close> is
  not among the sources. It gives the row ids that a record-shaped action refers to.
\<close>

fun getRowIdsFromDocAction :: "docAction \<Rightarrow> int list" where
  "getRowIdsFromDocAction (AddRecord _ r _) = [r]"
| "getRowIdsFromDocAction (BulkAddRecord _ rs _) = rs"
| "getRowIdsFromDocAction (RemoveRecord _ r) = [r]"
| "getRowIdsFromDocAction (BulkRemoveRecord _ rs) = rs"
| "getRowIdsFromDocAction (UpdateRecord _ r _) = [r]"
| "getRowIdsFromDocAction (BulkUpdateRecord _ rs _) = rs"
| "getRowIdsFromDocAction (ReplaceTableData _ rs _) = rs"
| "getRowIdsFromDocAction (TableData _ rs _) = rs"
| "getRowIdsFromDocAction _ = []"

text \<open>
  lodash's \<^verbatim>\<open>pullAt(array, indexes)\<close> removes the elements at the given indexes; an
  index outside the array removes nothing.
\<close>

definition pullAt :: "'a list \<Rightarrow> int list \<Rightarrow> 'a list" where
  "pullAt xs indexes =
     map snd (filter (\<lambda>p. int (fst p) \<notin> set indexes) (enumerate 0 xs))"

text \<open>\<^verbatim>\<open>_removeRowsAt\<close> on the row ids and on the columns, when the action has columns.\<close>

definition removeRowsAt ::
  "int list \<Rightarrow> int list \<Rightarrow> bulkColValues \<Rightarrow> int list \<times> bulkColValues" where
  "removeRowsAt toRemove rowIds colValues =
     (if 0 < length toRemove
      then (pullAt rowIds toRemove, map (\<lambda>kv. (fst kv, pullAt (snd kv) toRemove)) colValues)
      else (rowIds, colValues))"

text \<open>
  The mask of \<^verbatim>\<open>_removeRows\<close>:
  \<^verbatim>\<open>oldIds.map((id, idx) => rowIds.has(id) && idx || -1).filter(v => v !== -1)\<close>.
  \<^verbatim>\<open>rowIds.has(id) && idx\<close> is \<^verbatim>\<open>idx\<close> or \<^verbatim>\<open>false\<close>, and \<^verbatim>\<open>x || -1\<close> is \<^verbatim>\<open>-1\<close> when
  \<^verbatim>\<open>x\<close> is falsy, which the number 0 is.
\<close>

definition removeMask :: "int list \<Rightarrow> int list \<Rightarrow> int list" where
  "removeMask rowIds oldIds =
     filter (\<lambda>v. v \<noteq> - 1)
       (map (\<lambda>p. if snd p \<in> set rowIds
                  then (if int (fst p) \<noteq> 0 then int (fst p) else - 1)
                  else - 1)
            (enumerate 0 oldIds))"

definition removeBulkRows ::
  "(int list \<Rightarrow> bulkColValues \<Rightarrow> docAction) \<Rightarrow> int list \<Rightarrow> bulkColValues \<Rightarrow> int list
     \<Rightarrow> docAction option" where
  "removeBulkRows mk oldIds bulkColValues rowIds =
     (let r = removeRowsAt (removeMask rowIds oldIds) oldIds bulkColValues
      in if length (fst r) = 0 then None else Some (mk (fst r) (snd r)))"

text \<open>\<^verbatim>\<open>_removeRows\<close>; \<^const>\<open>None\<close> is \<^verbatim>\<open>null\<close>.\<close>

fun removeRows :: "docAction \<Rightarrow> int list \<Rightarrow> docAction option" where
  "removeRows (AddRecord t r cv) rowIds =
     (if r \<in> set rowIds then None else Some (AddRecord t r cv))"
| "removeRows (UpdateRecord t r cv) rowIds =
     (if r \<in> set rowIds then None else Some (UpdateRecord t r cv))"
| "removeRows (RemoveRecord t r) rowIds =
     (if r \<in> set rowIds then None else Some (RemoveRecord t r))"
| "removeRows (BulkAddRecord t rs cv) rowIds = removeBulkRows (BulkAddRecord t) rs cv rowIds"
| "removeRows (BulkUpdateRecord t rs cv) rowIds = removeBulkRows (BulkUpdateRecord t) rs cv rowIds"
| "removeRows (ReplaceTableData t rs cv) rowIds = removeBulkRows (ReplaceTableData t) rs cv rowIds"
| "removeRows (TableData t rs cv) rowIds = removeBulkRows (TableData t) rs cv rowIds"
| "removeRows (BulkRemoveRecord t rs) rowIds =
     (let rs' = (if 0 < length (removeMask rowIds rs) then pullAt rs (removeMask rowIds rs) else rs)
      in if length rs' = 0 then None else Some (BulkRemoveRecord t rs'))"
| "removeRows a rowIds = Some a"

text \<open>\<^verbatim>\<open>_makeAdditions\<close>: a \<^verbatim>\<open>BulkAddRecord\<close> from the rows of \<^verbatim>\<open>data\<close> that are in \<^verbatim>\<open>rowIds\<close>.\<close>

definition makeAdditions :: "tableDataAction \<Rightarrow> int list \<Rightarrow> docAction option" where
  "makeAdditions data rowIds =
     (if length rowIds = 0 then None
      else
        (let notAdded = filter (\<lambda>rowId. rowId \<notin> set rowIds) (td_rowIds data)
         in case removeRows (asDocAction data) (uniqueFirst [] notAdded) of
              Some (TableData t rs cv) \<Rightarrow> Some (BulkAddRecord t rs cv)
            | _ \<Rightarrow> None))"

definition makeRemovals :: "tableDataAction \<Rightarrow> int list \<Rightarrow> docAction option" where
  "makeRemovals data rowIds =
     (if length rowIds = 0 then None
      else Some (BulkRemoveRecord (getTableId (asDocAction data)) rowIds))"

text \<open>The verdict of the evaluator on one row: the input holds the row as \<^verbatim>\<open>rec\<close>.\<close>

definition rowInput :: "userInfo \<Rightarrow> tableDataAction \<Rightarrow> nat option \<Rightarrow> aclMatchInput" where
  "rowInput u data idx = \<lparr> in_user = u, in_rec = Some (RecordView data idx) \<rparr>"

text \<open>\<^verbatim>\<open>_getForbiddenRows\<close>.\<close>

definition getForbiddenRows ::
  "deps \<Rightarrow> granularAccess \<Rightarrow> optDocSession \<Rightarrow> tableDataAction \<Rightarrow> int list \<Rightarrow> int list result" where
  "getForbiddenRows D ga docSession data ids =
     rbind (getUser D ga docSession)
       (\<lambda>u. Inr (map snd
               (filter
                  (\<lambda>p. snd p \<in> set ids \<and>
                       read (pi_getTableAccess D ga (rowInput u data (Some (fst p)))
                               (td_tableId data)) = Deny)
                  (enumerate 0 (td_rowIds data)))))"

text \<open>
  An array write \<^verbatim>\<open>xs[i] = v\<close>: past the end the array grows, and the holes it leaves
  read as \<^verbatim>\<open>null\<close> once serialised.
\<close>

definition jsSet :: "cellValue list \<Rightarrow> nat \<Rightarrow> cellValue \<Rightarrow> cellValue list" where
  "jsSet xs i v =
     (if i < length xs then xs[i := v] else xs @ replicate (i - length xs) CNull @ [v])"

definition CENSORED :: cellValue where
  "CENSORED = CStr ''CENSORED''"

text \<open>
  \<^verbatim>\<open>new Map(data[2].map((rowId, idx) => [rowId, idx]))\<close>: the last index of a row id.
\<close>

definition rowIndexes :: "tableDataAction \<Rightarrow> (int \<times> nat) list" where
  "rowIndexes data =
     foldl (\<lambda>m p. AList.update (snd p) (fst p) m) [] (enumerate 0 (td_rowIds data))"

text \<open>
  The loop of \<^verbatim>\<open>_filterRowsAndCells\<close> over the rows of a bulk action: the columns as
  censored so far and the indexes to remove. When the action is the data itself, the
  cursor reads the data as the loop has left it. The verdicts of a row are those of its
  evaluator \<^verbatim>\<open>rowPermInfo\<close>, whose memo \<^verbatim>\<open>getTableAccess\<close> fills before a cell of the
  row is censored.
\<close>

definition filterRowStep ::
  "deps \<Rightarrow> granularAccess \<Rightarrow> userInfo \<Rightarrow> tableDataAction \<Rightarrow> bool \<Rightarrow> string \<Rightarrow> int list
     \<Rightarrow> bulkColValues \<times> nat list \<Rightarrow> nat \<Rightarrow> bulkColValues \<times> nat list" where
  "filterRowStep D ga u data same tableId rowIds st idx =
     (let cols = fst st;
          dataNow = (if same then data \<lparr> td_columns := cols \<rparr> else data);
          dataIndex = (if same then Some idx else map_of (rowIndexes data) (rowIds ! idx));
          input = rowInput u dataNow dataIndex;
          rowAccess = pi_getTableAccess D ga input tableId
      in if read rowAccess = Deny then (cols, snd st @ [idx])
         else if read rowAccess \<noteq> Allow
         then (map (\<lambda>kv. if read (pi_getColumnAccess D ga input tableId (fst kv)) \<noteq> Allow
                          then (fst kv, jsSet (snd kv) idx CENSORED)
                          else kv) cols,
               snd st)
         else st)"

definition filterBulkRows ::
  "deps \<Rightarrow> granularAccess \<Rightarrow> userInfo \<Rightarrow> tableDataAction \<Rightarrow> bool \<Rightarrow> string \<Rightarrow> int list
     \<Rightarrow> bulkColValues \<Rightarrow> (int list \<times> bulkColValues) result" where
  "filterBulkRows D ga u data same tableId rowIds cols =
     (let st = foldl (filterRowStep D ga u data same tableId rowIds) (cols, [])
                 [0 ..< length rowIds]
      in if 0 < length (snd st)
         then (if same then Inr (removeRowsAt (map int (snd st)) rowIds (fst st))
               else Inl (Error ''Unexpected row removal''))
         else Inr (rowIds, fst st))"

text \<open>The same for an action on a single record, where a censored cell replaces the value.\<close>

definition filterSingleRow ::
  "deps \<Rightarrow> granularAccess \<Rightarrow> userInfo \<Rightarrow> tableDataAction \<Rightarrow> string \<Rightarrow> int \<Rightarrow> colValues
     \<Rightarrow> colValues result" where
  "filterSingleRow D ga u data tableId rowId cv =
     (let input = rowInput u data (map_of (rowIndexes data) rowId);
          rowAccess = pi_getTableAccess D ga input tableId
      in if read rowAccess = Deny then Inl (Error ''Unexpected row removal'')
         else if read rowAccess \<noteq> Allow
         then Inr (map (\<lambda>kv. if read (pi_getColumnAccess D ga input tableId (fst kv)) \<noteq> Allow
                               then (fst kv, CENSORED) else kv) cv)
         else Inr cv)"

text \<open>
  \<^verbatim>\<open>_filterRowsAndCells\<close>, which changes \<^verbatim>\<open>docAction\<close> in place: the result is the action
  as changed. \<^verbatim>\<open>same\<close> says that \<^verbatim>\<open>docAction\<close> and \<^verbatim>\<open>data\<close> are one object.
\<close>

definition filterRowsAndCells ::
  "deps \<Rightarrow> granularAccess \<Rightarrow> optDocSession \<Rightarrow> tableDataAction \<Rightarrow> bool \<Rightarrow> docAction
     \<Rightarrow> docAction result" where
  "filterRowsAndCells D ga docSession data same docAction =
     (if isSchemaAction docAction then Inr docAction
      else
        rbind (getUser D ga docSession)
          (\<lambda>u. case docAction of
                  AddRecord t r cv \<Rightarrow>
                    rbind (filterSingleRow D ga u data t r cv) (\<lambda>cv'. Inr (AddRecord t r cv'))
                | UpdateRecord t r cv \<Rightarrow>
                    rbind (filterSingleRow D ga u data t r cv) (\<lambda>cv'. Inr (UpdateRecord t r cv'))
                | BulkAddRecord t rs cv \<Rightarrow>
                    rbind (filterBulkRows D ga u data same t rs cv)
                      (\<lambda>r. Inr (BulkAddRecord t (fst r) (snd r)))
                | BulkUpdateRecord t rs cv \<Rightarrow>
                    rbind (filterBulkRows D ga u data same t rs cv)
                      (\<lambda>r. Inr (BulkUpdateRecord t (fst r) (snd r)))
                | ReplaceTableData t rs cv \<Rightarrow>
                    rbind (filterBulkRows D ga u data same t rs cv)
                      (\<lambda>r. Inr (ReplaceTableData t (fst r) (snd r)))
                | TableData t rs cv \<Rightarrow>
                    rbind (filterBulkRows D ga u data same t rs cv)
                      (\<lambda>r. Inr (TableData t (fst r) (snd r)))
                | _ \<Rightarrow> Inr docAction))"

subsection \<open>The row-transition plan\<close>

record rowPlan =
  removals :: "int list"
  forceAdds :: "int list"
  forceRemoves :: "int list"

definition setAdd :: "'a \<Rightarrow> 'a list \<Rightarrow> 'a list" where
  "setAdd x xs = (if x \<in> set xs then xs else xs @ [x])"

fun isAddLike :: "docAction \<Rightarrow> bool" where
  "isAddLike (AddRecord _ _ _) = True"
| "isAddLike (BulkAddRecord _ _ _) = True"
| "isAddLike (ReplaceTableData _ _ _) = True"
| "isAddLike (TableData _ _ _) = True"
| "isAddLike _ = False"

fun isUpdateLike :: "docAction \<Rightarrow> bool" where
  "isUpdateLike (UpdateRecord _ _ _) = True"
| "isUpdateLike (BulkUpdateRecord _ _ _) = True"
| "isUpdateLike _ = False"

fun isRemoveLike :: "docAction \<Rightarrow> bool" where
  "isRemoveLike (RemoveRecord _ _) = True"
| "isRemoveLike (BulkRemoveRecord _ _) = True"
| "isRemoveLike _ = False"

text \<open>One iteration of the loop of \<^verbatim>\<open>_pruneRows\<close> over the row ids of the action.\<close>

definition planStep :: "docAction \<Rightarrow> int list \<Rightarrow> int list \<Rightarrow> rowPlan \<Rightarrow> int \<Rightarrow> rowPlan" where
  "planStep a forbiddenBefores forbiddenAfters plan rowId =
     (let forbiddenBefore = (rowId \<in> set forbiddenBefores);
          forbiddenAfter = (rowId \<in> set forbiddenAfters)
      in if \<not> forbiddenBefore \<and> \<not> forbiddenAfter then plan
         else if forbiddenBefore \<and> forbiddenAfter
         then plan \<lparr> removals := setAdd rowId (removals plan) \<rparr>
         else if forbiddenBefore
         then (if isAddLike a then plan
               else if isUpdateLike a
               then plan \<lparr> removals := setAdd rowId (removals plan),
                           forceAdds := setAdd rowId (forceAdds plan) \<rparr>
               else plan \<lparr> removals := setAdd rowId (removals plan) \<rparr>)
         else (if isRemoveLike a then plan
               else if isUpdateLike a
               then plan \<lparr> removals := setAdd rowId (removals plan),
                           forceRemoves := setAdd rowId (forceRemoves plan) \<rparr>
               else plan \<lparr> removals := setAdd rowId (removals plan) \<rparr>))"

definition planRows :: "docAction \<Rightarrow> int list \<Rightarrow> int list \<Rightarrow> int list \<Rightarrow> rowPlan" where
  "planRows a ids forbiddenBefores forbiddenAfters =
     foldl (planStep a forbiddenBefores forbiddenAfters)
       \<lparr> removals = [], forceAdds = [], forceRemoves = [] \<rparr> ids"

text \<open>The revised actions of \<^verbatim>\<open>_pruneRows\<close>, before cells are censored.\<close>

definition revisedDocActions :: "docAction \<Rightarrow> tableDataAction \<Rightarrow> rowPlan \<Rightarrow> docAction list" where
  "revisedDocActions a rowsAfter plan =
     List.map_filter id
       [makeAdditions rowsAfter (forceAdds plan),
        removeRows a (removals plan),
        makeRemovals rowsAfter (forceRemoves plan)]"

text \<open>
  \<^verbatim>\<open>_pruneRows\<close>. Reading \<^verbatim>\<open>allRowSnapshots[idx]\<close> past the end gives \<^verbatim>\<open>undefined\<close>, and
  taking it apart throws.
\<close>

definition pruneRows ::
  "deps \<Rightarrow> granularAccess \<Rightarrow> optDocSession \<Rightarrow> docAction \<Rightarrow> nat \<Rightarrow> docAction list result" where
  "pruneRows D ga docSession a idx =
     (if isSchemaAction a then Inr [a]
      else
        (case rowSnapshots ga of
           None \<Rightarrow> Inl (Error ''Actions not available'')
         | Some allRowSnapshots \<Rightarrow>
             (if \<not> idx < length allRowSnapshots then Inl TypeError
              else
                (let rowsBefore = fst (allRowSnapshots ! idx);
                     rowsAfter = snd (allRowSnapshots ! idx);
                     ids = uniqueFirst [] (getRowIdsFromDocAction a)
                 in rbind (getForbiddenRows D ga docSession rowsBefore ids)
                      (\<lambda>fb. rbind (getForbiddenRows D ga docSession rowsAfter ids)
                         (\<lambda>fa. mapResult (filterRowsAndCells D ga docSession rowsAfter False)
                                  (revisedDocActions a rowsAfter
                                     (planRows a ids (uniqueFirst [] fb) (uniqueFirst [] fa)))))))))"

text \<open>\<^verbatim>\<open>pruneOutgoingDocAction\<close>.\<close>

definition pruneOutgoingDocAction ::
  "deps \<Rightarrow> granularAccess \<Rightarrow> optDocSession \<Rightarrow> docAction \<Rightarrow> nat \<Rightarrow> docAction list result" where
  "pruneOutgoingDocAction D ga docSession a idx =
     (let tableId = getTableId a
      in rbind (getAccess D ga docSession)
           (\<lambda>permInfo.
              let tableAccess = pi_getTableAccess D ga permInfo tableId
              in if read tableAccess = Deny then Inr []
                 else if read tableAccess = Allow then Inr [a]
                 else if read tableAccess = MixedColumns
                 then rbind (pruneColumns D ga a permInfo tableId)
                        (\<lambda>na. Inr (List.map_filter id [na]))
                 else rbind (pruneRows D ga docSession a idx)
                        (\<lambda>revised.
                           rbind (mapResult (\<lambda>na. pruneColumns D ga na permInfo tableId) revised)
                             (\<lambda>nas. Inr (List.map_filter id nas)))))"

text \<open>
  \<^verbatim>\<open>filterOutgoingDocActions\<close>: every action is pruned with its index in the bundle, and
  the lists are concatenated.
\<close>

definition filterOutgoingDocActions ::
  "deps \<Rightarrow> granularAccess \<Rightarrow> optDocSession \<Rightarrow> docAction list \<Rightarrow> docAction list result" where
  "filterOutgoingDocActions D ga docSession docActions =
     rbind (mapResult (\<lambda>p. pruneOutgoingDocAction D ga docSession (snd p) (fst p))
              (enumerate 0 docActions))
       (\<lambda>actions. Inr (concat actions))"

text \<open>\<^verbatim>\<open>filterData\<close>, which changes \<^verbatim>\<open>data\<close> in place: the result is the data as changed.\<close>

definition filterData ::
  "deps \<Rightarrow> granularAccess \<Rightarrow> optDocSession \<Rightarrow> tableDataAction \<Rightarrow> tableDataAction result" where
  "filterData D ga docSession data =
     rbind (getAccess D ga docSession)
       (\<lambda>permInfo.
          let tableId = getTableId (asDocAction data)
          in rbind (if read (pi_getTableAccess D ga permInfo tableId) = Mixed
                    then rbind (getUser D ga docSession)
                           (\<lambda>u. rbind (filterBulkRows D ga u data True (td_tableId data)
                                          (td_rowIds data) (td_columns data))
                                   (\<lambda>r. Inr (data \<lparr> td_rowIds := fst r, td_columns := snd r \<rparr>)))
                    else Inr data)
               (\<lambda>data'. Inr (data' \<lparr> td_columns :=
                                filterColumns (td_columns data')
                                  (colReadable D ga permInfo tableId) \<rparr>)))"

section \<open>Censoring the metadata tables\<close>

text \<open>A number read from a cell, for \<^verbatim>\<open>set.has(cell as number)\<close> on a set of numbers.\<close>

definition hasCell :: "int list \<Rightarrow> cellValue option \<Rightarrow> bool" where
  "hasCell ids c = (case c of Some (CNum n) \<Rightarrow> n \<in> set ids | _ \<Rightarrow> False)"

text \<open>\<^verbatim>\<open>`${x}`\<close> of a field of a record; a missing field is \<^verbatim>\<open>undefined\<close>.\<close>

definition fieldString :: "cellValue option \<Rightarrow> string" where
  "fieldString c = (case c of None \<Rightarrow> ''undefined'' | Some v \<Rightarrow> cellString v)"

definition columnCode :: "string \<Rightarrow> string \<Rightarrow> string" where
  "columnCode tableRef colId = tableRef @ '' '' @ colId"

definition lookupTableRef :: "granularAccess \<Rightarrow> string \<Rightarrow> int option" where
  "lookupTableRef ga tableId = findRow (docData ga) ''_grist_Tables'' ''tableId'' (CStr tableId)"

definition truthyRef :: "int option \<Rightarrow> bool" where
  "truthyRef r = (case r of None \<Rightarrow> False | Some n \<Rightarrow> n \<noteq> 0)"

text \<open>
  The first loop of \<^verbatim>\<open>filterMetaTables\<close>: the state is the censored tables and the
  censored column codes; \<^verbatim>\<open>tableRef\<close> is local to one table id.
\<close>

definition censorColumnStep ::
  "deps \<Rightarrow> granularAccess \<Rightarrow> aclMatchInput \<Rightarrow> string \<Rightarrow> int option \<times> string list \<Rightarrow> string
     \<Rightarrow> int option \<times> string list" where
  "censorColumnStep D ga permInfo tableId st colId =
     (if read (pi_getColumnAccess D ga permInfo tableId colId) = Deny
      then (let tableRef = (if \<not> truthyRef (fst st) then lookupTableRef ga tableId else fst st)
            in (tableRef,
                if truthyRef tableRef
                then setAdd (columnCode (cellString (CNum (the tableRef))) colId) (snd st)
                else snd st))
      else st)"

definition censorRuleSetStep ::
  "deps \<Rightarrow> granularAccess \<Rightarrow> aclMatchInput \<Rightarrow> string \<Rightarrow> int option \<times> string list \<Rightarrow> ruleSet
     \<Rightarrow> int option \<times> string list" where
  "censorRuleSetStep D ga permInfo tableId st rs =
     (case colIds rs of
        ColIds cs \<Rightarrow> foldl (censorColumnStep D ga permInfo tableId) st cs
      | AllColumns \<Rightarrow> st)"

definition censorTableStep ::
  "deps \<Rightarrow> granularAccess \<Rightarrow> aclMatchInput \<Rightarrow> int list \<times> string list \<Rightarrow> string
     \<Rightarrow> int list \<times> string list" where
  "censorTableStep D ga permInfo st tableId =
     (let tableAccess = pi_getTableAccess D ga permInfo tableId;
          denied = (read tableAccess = Deny);
          tableRef = (if denied then lookupTableRef ga tableId else Some 0);
          censoredTables = (if denied \<and> truthyRef tableRef
                            then setAdd (the tableRef) (fst st) else fst st);
          r = foldl (censorRuleSetStep D ga permInfo tableId) (tableRef, snd st)
                (getAllColumnRuleSets ga tableId)
      in (censoredTables, snd r))"

text \<open>The sets of censored row ids of the five metadata tables.\<close>

record censoredIds =
  censoredTables :: "int list"
  censoredViews :: "int list"
  censoredSections :: "int list"
  censoredColumns :: "int list"
  censoredFields :: "int list"

definition recordsOf :: "granularAccess \<Rightarrow> string \<Rightarrow> (int \<times> colValues) list" where
  "recordsOf ga tableId = (case getRecords (docData ga) tableId of None \<Rightarrow> [] | Some rs \<Rightarrow> rs)"

text \<open>
  A parent view is added when \<^verbatim>\<open>section.parentId\<close> is truthy. A truthy value that is not
  a number would enter the JavaScript set as it is and match no row id, all of them
  numbers; it is not added here.
\<close>

definition sectionStep ::
  "int list \<Rightarrow> int list \<times> int list \<Rightarrow> int \<times> colValues \<Rightarrow> int list \<times> int list" where
  "sectionStep tables st section =
     (if \<not> hasCell tables (map_of (snd section) ''tableRef'') then st
      else ((case map_of (snd section) ''parentId'' of
               Some (CNum n) \<Rightarrow> if n \<noteq> 0 then setAdd n (fst st) else fst st
             | _ \<Rightarrow> fst st),
            setAdd (fst section) (snd st)))"

definition computeCensoredIds ::
  "deps \<Rightarrow> granularAccess \<Rightarrow> aclMatchInput \<Rightarrow> censoredIds" where
  "computeCensoredIds D ga permInfo =
     (let tc = foldl (censorTableStep D ga permInfo) ([], []) (getAllTableIds ga);
          vs = foldl (sectionStep (fst tc)) ([], []) (recordsOf ga ''_grist_Views_section'');
          columns =
            foldl (\<lambda>acc column.
                     if hasCell (fst tc) (map_of (snd column) ''parentId'') \<or>
                        columnCode (fieldString (map_of (snd column) ''parentId''))
                          (fieldString (map_of (snd column) ''colId'')) \<in> set (snd tc)
                     then setAdd (fst column) acc else acc)
              [] (recordsOf ga ''_grist_Tables_column'');
          fields =
            foldl (\<lambda>acc field.
                     if \<not> hasCell (snd vs) (map_of (snd field) ''parentId'') \<and>
                        \<not> hasCell columns (map_of (snd field) ''colRef'')
                     then acc else setAdd (fst field) acc)
              [] (recordsOf ga ''_grist_Views_section_field'')
      in \<lparr> censoredTables = fst tc, censoredViews = fst vs, censoredSections = snd vs,
           censoredColumns = columns, censoredFields = fields \<rparr>)"

text \<open>\<^verbatim>\<open>cols[colId][idx] = v\<close>: it throws when the table has no such column.\<close>

definition setCell :: "string \<Rightarrow> cellValue \<Rightarrow> nat \<Rightarrow> bulkColValues \<Rightarrow> bulkColValues result" where
  "setCell colId v idx cols =
     (case map_of cols colId of
        None \<Rightarrow> Inl TypeError
      | Some vs \<Rightarrow> Inr (AList.update colId (jsSet vs idx v) cols))"

text \<open>A censoring operation is the list of cells it overwrites, in the order of the writes.\<close>

definition applyOp ::
  "(string \<times> cellValue) list \<Rightarrow> nat \<Rightarrow> bulkColValues \<Rightarrow> bulkColValues result" where
  "applyOp op idx cols = foldResult (\<lambda>c w. setCell (fst w) (snd w) idx c) cols op"

text \<open>
  \<^verbatim>\<open>_censor\<close> on the table \<^verbatim>\<open>tables[name]\<close>; reading \<^verbatim>\<open>table[2]\<close> throws when the table is
  missing.
\<close>

definition censor ::
  "(string \<times> tableDataAction) list \<Rightarrow> string \<Rightarrow> int list \<Rightarrow> (string \<times> cellValue) list
     \<Rightarrow> (string \<times> tableDataAction) list result" where
  "censor tables name ids op =
     (case map_of tables name of
        None \<Rightarrow> Inl TypeError
      | Some table \<Rightarrow>
          rbind (foldResult
                   (\<lambda>cols idx. if td_rowIds table ! idx \<in> set ids then applyOp op idx cols
                                else Inr cols)
                   (td_columns table) [0 ..< length (td_rowIds table)])
            (\<lambda>cols'. Inr (AList.update name (table \<lparr> td_columns := cols' \<rparr>) tables)))"

definition censorAll ::
  "censoredIds \<Rightarrow> (string \<times> tableDataAction) list \<Rightarrow> (string \<times> tableDataAction) list result" where
  "censorAll c tables =
     rbind (censor tables ''_grist_Tables'' (censoredTables c) [(''tableId'', CStr [])])
       (\<lambda>t1. rbind (censor t1 ''_grist_Views'' (censoredViews c) [(''name'', CStr [])])
          (\<lambda>t2. rbind (censor t2 ''_grist_Views_section'' (censoredSections c)
                          [(''title'', CStr []), (''tableRef'', CNum 0)])
             (\<lambda>t3. rbind (censor t3 ''_grist_Tables_column'' (censoredColumns c)
                             [(''colId'', CStr []), (''label'', CStr []),
                              (''formula'', CStr []), (''widgetOptions'', CStr []),
                              (''type'', CStr ''Any''), (''parentId'', CNum 0)])
                (\<lambda>t4. censor t4 ''_grist_Views_section_field'' (censoredFields c)
                         [(''filter'', CStr []), (''widgetOptions'', CStr []),
                          (''parentId'', CNum 0)]))))"

text \<open>
  \<^verbatim>\<open>filterMetaTables\<close>. The copy \<^verbatim>\<open>JSON.parse(JSON.stringify(tables))\<close> of data that is JSON
  already is the data.
\<close>

definition filterMetaTables ::
  "deps \<Rightarrow> granularAccess \<Rightarrow> optDocSession \<Rightarrow> (string \<times> tableDataAction) list
     \<Rightarrow> (string \<times> tableDataAction) list result" where
  "filterMetaTables D ga docSession tables =
     rbind (canReadEverything D ga docSession)
       (\<lambda>all. if all then Inr tables
              else rbind (getAccess D ga docSession)
                     (\<lambda>permInfo. censorAll (computeCensoredIds D ga permInfo) tables))"

section \<open>The shape of an action, for stating what pruning does\<close>

text \<open>The column of a column-schema action.\<close>

fun schemaColumn :: "docAction \<Rightarrow> string option" where
  "schemaColumn (AddColumn _ c _) = Some c"
| "schemaColumn (RemoveColumn _ c) = Some c"
| "schemaColumn (RenameColumn _ c _) = Some c"
| "schemaColumn (ModifyColumn _ c _) = Some c"
| "schemaColumn _ = None"

text \<open>The column ids that a record-shaped action carries values for, if it carries any.\<close>

fun actionColumnIds :: "docAction \<Rightarrow> string list option" where
  "actionColumnIds (AddRecord _ _ cv) = Some (map fst cv)"
| "actionColumnIds (BulkAddRecord _ _ cv) = Some (map fst cv)"
| "actionColumnIds (UpdateRecord _ _ cv) = Some (map fst cv)"
| "actionColumnIds (BulkUpdateRecord _ _ cv) = Some (map fst cv)"
| "actionColumnIds (ReplaceTableData _ _ cv) = Some (map fst cv)"
| "actionColumnIds (TableData _ _ cv) = Some (map fst cv)"
| "actionColumnIds _ = None"

text \<open>An action with the values of the columns that \<^verbatim>\<open>keep\<close> rejects taken out.\<close>

fun keepColumns :: "(string \<Rightarrow> bool) \<Rightarrow> docAction \<Rightarrow> docAction" where
  "keepColumns keep (AddRecord t r cv) = AddRecord t r (filter (\<lambda>kv. keep (fst kv)) cv)"
| "keepColumns keep (BulkAddRecord t rs cv) = BulkAddRecord t rs (filter (\<lambda>kv. keep (fst kv)) cv)"
| "keepColumns keep (UpdateRecord t r cv) = UpdateRecord t r (filter (\<lambda>kv. keep (fst kv)) cv)"
| "keepColumns keep (BulkUpdateRecord t rs cv) =
     BulkUpdateRecord t rs (filter (\<lambda>kv. keep (fst kv)) cv)"
| "keepColumns keep (ReplaceTableData t rs cv) =
     ReplaceTableData t rs (filter (\<lambda>kv. keep (fst kv)) cv)"
| "keepColumns keep (TableData t rs cv) = TableData t rs (filter (\<lambda>kv. keep (fst kv)) cv)"
| "keepColumns keep a = a"

section \<open>What a rule contributes, in the words of the spec\<close>

text \<open>
  The delta that the evaluation of a rule set merges for one rule: the permission delta of
  a rule that matches, the weakened delta of a rule whose predicate raises needs-row, and
  nothing for a rule that does not match or whose predicate raises another error.
\<close>

definition ruleDelta :: "rule \<Rightarrow> aclMatchInput \<Rightarrow> permissionSet option" where
  "ruleDelta r input =
     (case callMatchFunc r input of
        Inr matched \<Rightarrow> if matched then Some (permissions r) else None
      | Inl e \<Rightarrow>
          if thrown_code e = Some ''NEED_ROW_DATA''
          then Some (makePartialPermissions (permissions r)) else None)"

text \<open>The line logged for one rule: one for a predicate that raises another error.\<close>

definition ruleWarning :: "ruleSet \<Rightarrow> rule \<Rightarrow> aclMatchInput \<Rightarrow> string option" where
  "ruleWarning rs r input =
     (case callMatchFunc r input of
        Inr matched \<Rightarrow> None
      | Inl e \<Rightarrow>
          if thrown_code e = Some ''NEED_ROW_DATA'' then None
          else Some (warnMessage (rs_tableId rs) (thrown_message e)))"

definition bitSelectors :: "(permissionSet \<Rightarrow> permissionValue) list" where
  "bitSelectors = [read, perm_update, perm_create, perm_delete, perm_schemaEdit, perm_reserved]"

section \<open>An invariant of the rule store\<close>

text \<open>
  Every table with a column rule set or a table-default rule set is among the table ids,
  and an engine whose flag \<^verbatim>\<open>_haveRules\<close> is false holds no rule set but the built-in
  default.
\<close>

definition storeInv :: "deps \<Rightarrow> granularAccess \<Rightarrow> bool" where
  "storeInv D ga =
     ((\<forall>t. t \<in> fst ` set (columnRuleSets ga) \<union> fst ` set (tableRuleSets ga)
            \<longrightarrow> t \<in> set (tableIds ga))
      \<and> (\<not> haveRules ga \<longrightarrow>
           columnRuleSets ga = [] \<and> tableColumnMap ga = [] \<and> tableRuleSets ga = []
           \<and> defaultRuleSet ga = DEFAULT_RULE_SET D))"

section \<open>Cells that a censoring operation has written\<close>

text \<open>The cell of column \<^verbatim>\<open>colId\<close> at index \<^verbatim>\<open>idx\<close> exists and holds \<^verbatim>\<open>v\<close>.\<close>

definition cellIs :: "bulkColValues \<Rightarrow> string \<Rightarrow> nat \<Rightarrow> cellValue \<Rightarrow> bool" where
  "cellIs cols colId idx v =
     (case map_of cols colId of None \<Rightarrow> False | Some vs \<Rightarrow> idx < length vs \<and> vs ! idx = v)"

text \<open>An operation writes one value to a column, however often it writes to it.\<close>

definition functionalOp :: "(string \<times> cellValue) list \<Rightarrow> bool" where
  "functionalOp op = (\<forall>w \<in> set op. \<forall>w' \<in> set op. fst w = fst w' \<longrightarrow> snd w = snd w')"

text \<open>The loop of \<^verbatim>\<open>_censor\<close> over the indexes of a table.\<close>

definition censorRows ::
  "int list \<Rightarrow> int list \<Rightarrow> (string \<times> cellValue) list \<Rightarrow> bulkColValues \<Rightarrow> nat list
     \<Rightarrow> bulkColValues result" where
  "censorRows rowIds ids op cols idxs =
     foldResult (\<lambda>cols idx. if rowIds ! idx \<in> set ids then applyOp op idx cols else Inr cols)
       cols idxs"

section \<open>What the spec says of the permission lattice\<close>

text \<open>
  The statements of the spec about the read bit that hold whatever the operators do on the
  values it leaves open: in a merge a final first operand (\<^verbatim>\<open>allow\<close>, \<^verbatim>\<open>deny\<close>) wins and an
  unset one is the identity; \<^verbatim>\<open>toMixed\<close> keeps a final value; owners and editors are
  granted all permissions (\<^verbatim>\<open>all\<close>) and viewers read (\<^verbatim>\<open>+R\<close>).
\<close>

definition latticeReadLaws :: "deps \<Rightarrow> bool" where
  "latticeReadLaws D =
     ((\<forall>a b. read a = Allow \<or> read a = Deny \<longrightarrow> read (mergePartialPermissions D a b) = read a)
      \<and> (\<forall>a b. read a = Unset \<longrightarrow> read (mergePartialPermissions D a b) = read b)
      \<and> (\<forall>p. read p = Allow \<or> read p = Deny \<longrightarrow> read (toMixed D p) = read p)
      \<and> read (parsePermissions D ''all'') = Allow
      \<and> read (parsePermissions D ''+R'') = Allow)"

text \<open>
  Modelled from the spec: an instance of the operators of \<^verbatim>\<open>app/common/ACLPermissions\<close>,
  for evaluating the engine on concrete inputs. Per bit, in a merge a final first operand
  wins, else a final second operand wins, else a value beats unset; where the spec says
  no more (both operands neither final nor unset) the first operand is taken.
  \<^verbatim>\<open>toMixed\<close> collapses \<^verbatim>\<open>allowSome\<close> to \<^verbatim>\<open>allow\<close> and \<^verbatim>\<open>denySome\<close> to \<^verbatim>\<open>deny\<close>; an unset bit,
  of which the spec says nothing, is taken as \<^verbatim>\<open>deny\<close>. \<^verbatim>\<open>all\<close> allows every bit, \<^verbatim>\<open>none\<close>
  denies every bit, \<^verbatim>\<open>+R\<close> allows read and leaves the rest unset. The path of
  \<^verbatim>\<open>get(user, path)\<close> is read as one key.
\<close>

definition specCombine :: "permissionValue \<Rightarrow> permissionValue \<Rightarrow> permissionValue" where
  "specCombine a b =
     (if a = Allow \<or> a = Deny then a
      else if b = Allow \<or> b = Deny then b
      else if a = Unset then b
      else a)"

fun specCollapse :: "permissionValue \<Rightarrow> permissionValue" where
  "specCollapse AllowSome = Allow"
| "specCollapse DenySome = Deny"
| "specCollapse Unset = Deny"
| "specCollapse v = v"

definition allBits :: "permissionValue \<Rightarrow> permissionSet" where
  "allBits v = mergePermissions [] (\<lambda>_. v)"

definition specParsePermissions :: "string \<Rightarrow> permissionSet" where
  "specParsePermissions text =
     (if text = ''all'' then allBits Allow
      else if text = ''none'' then allBits Deny
      else if text = ''+R'' then (allBits Unset) \<lparr> read := Allow \<rparr>
      else allBits Unset)"

definition specDeps :: deps where
  "specDeps =
     \<lparr> mergePartialPermissions =
         (\<lambda>a b. mergePermissions [a, b] (\<lambda>bits. specCombine (bits ! 0) (bits ! 1))),
       toMixed = (\<lambda>p. mergePermissions [p] (\<lambda>bits. specCollapse (hd bits))),
       parsePermissions = specParsePermissions,
       lodashGet = map_of,
       stringifyLower = cellString \<rparr>"

section \<open>Concrete engines, sessions and documents\<close>

definition noDocData :: docData where
  "noDocData = \<lparr> findRow = (\<lambda>_ _ _. None), getRecords = (\<lambda>_. None) \<rparr>"

definition noStore :: "query \<Rightarrow> tableDataAction result" where
  "noStore q = Inl (Error ''no store'')"

definition sessionOf :: "role \<Rightarrow> optDocSession" where
  "sessionOf r = \<lparr> sessionAccess = r, sessionUser = None \<rparr>"

text \<open>A new engine: no call of \<^verbatim>\<open>update\<close> yet, no user-authored rule set.\<close>

definition freshEngine :: granularAccess where
  "freshEngine = newGranularAccess specDeps noDocData noStore"

text \<open>A column rule set that denies column \<^verbatim>\<open>sec\<close> of table \<^verbatim>\<open>T\<close> to viewers.\<close>

definition secretColumnRules :: aclRules where
  "secretColumnRules =
     \<lparr> ruleSets = [\<lparr> rs_tableId = ''T'', colIds = ColIds [''sec''],
                     body = [\<lparr> aclFormula = ''user.Access == viewers'',
                               matchFunc = Some (\<lambda>input. Inr (userFieldString (in_user input)
                                                                ''Access'' = ''viewers'')),
                               permissions = allBits Deny,
                               permissionsText = ''none'' \<rparr>],
                     defaultPermissions = allBits Unset \<rparr>],
       userAttributes = [] \<rparr>"

definition secretColumnEngine :: granularAccess where
  "secretColumnEngine = snd (update specDeps secretColumnRules freshEngine)"

text \<open>
  A table-default rule set on \<^verbatim>\<open>T\<close> that allows reading a row when its \<^verbatim>\<open>owner\<close> is the
  user's email, and denies otherwise; the predicate needs the row.
\<close>

definition ownerMatch :: "aclMatchInput \<Rightarrow> thrown + bool" where
  "ownerMatch input =
     (case in_rec input of
        None \<Rightarrow> Inl (Thrown (Some ''NEED_ROW_DATA'') ''rec needed'')
      | Some rv \<Rightarrow>
          (case RecordView_get rv ''owner'' of
             Inr (Some c) \<Rightarrow> Inr (map_of (in_user input) ''Email'' = Some (Cell c))
           | _ \<Rightarrow> Inr False))"

definition ownerRules :: aclRules where
  "ownerRules =
     \<lparr> ruleSets = [\<lparr> rs_tableId = ''T'', colIds = AllColumns,
                     body = [\<lparr> aclFormula = ''rec.owner == user.Email'',
                               matchFunc = Some ownerMatch,
                               permissions = (allBits Unset) \<lparr> read := Allow \<rparr>,
                               permissionsText = ''+R'' \<rparr>],
                     defaultPermissions = allBits Deny \<rparr>],
       userAttributes = [] \<rparr>"

definition bobSession :: optDocSession where
  "bobSession =
     \<lparr> sessionAccess = Viewers,
       sessionUser = Some \<lparr> fu_id = 2, fu_email = ''bob'', fu_name = ''Bob'' \<rparr> \<rparr>"

text \<open>The user record of Bob's session when no user-attribute rule is configured.\<close>

definition bobUser :: userInfo where
  "bobUser = [(''Access'', Cell (CStr ''viewers'')), (''UserID'', Cell (CNum 2)),
              (''Email'', Cell (CStr ''bob'')), (''Name'', Cell (CStr ''Bob''))]"

text \<open>Rows 1 and 2 of \<^verbatim>\<open>T\<close>: row 1 is Alice's, row 2 is Bob's.\<close>

definition ownedRows :: tableDataAction where
  "ownedRows =
     \<lparr> td_tableId = ''T'', td_rowIds = [1, 2],
       td_columns = [(''owner'', [CStr ''alice'', CStr ''bob'']), (''x'', [CNum 10, CNum 20])] \<rparr>"

text \<open>The same rows when both were Alice's.\<close>

definition aliceRows :: tableDataAction where
  "aliceRows =
     \<lparr> td_tableId = ''T'', td_rowIds = [1, 2],
       td_columns = [(''owner'', [CStr ''alice'', CStr ''alice'']), (''x'', [CNum 10, CNum 20])] \<rparr>"

text \<open>
  The engine under these rules while a bundle of two actions is broadcast: the first
  leaves the owners as they are, the second makes Bob the owner of row 2.
\<close>

definition ownerEngine :: granularAccess where
  "ownerEngine =
     (snd (update specDeps ownerRules freshEngine))
       \<lparr> docData := noDocData, fetchQueryFromDB := noStore,
         rowSnapshots := Some [(ownedRows, ownedRows), (aliceRows, ownedRows)] \<rparr>"

text \<open>A doc-level rule set that lists a column: the first configuration error.\<close>

definition docLevelColumnRules :: aclRules where
  "docLevelColumnRules =
     \<lparr> ruleSets = [\<lparr> rs_tableId = ''*'', colIds = ColIds [''A''], body = [],
                     defaultPermissions = allBits Deny \<rparr>],
       userAttributes = [] \<rparr>"

text \<open>Two user-attribute rules of one name, over a store that holds the looked-up table.\<close>

definition duplicateAttributeRules :: aclRules where
  "duplicateAttributeRules =
     \<lparr> ruleSets = [],
       userAttributes =
         [\<lparr> ua_name = ''office'', ua_tableId = ''Staff'', lookupColId = ''Email'',
            charId = ''Email'' \<rparr>,
          \<lparr> ua_name = ''office'', ua_tableId = ''People'', lookupColId = ''Email'',
            charId = ''Email'' \<rparr>] \<rparr>"

definition staffStore :: "query \<Rightarrow> tableDataAction result" where
  "staffStore q =
     Inr \<lparr> td_tableId = q_tableId q, td_rowIds = [1],
           td_columns = [(''Email'', [CStr ''bob''])] \<rparr>"

text \<open>
  A document with a table \<^verbatim>\<open>Secret\<close> (row 1 of the tables' metadata) that a table-default
  rule set denies to everyone, with one column, one view section in view 5 and one field.
\<close>

definition secretTableRules :: aclRules where
  "secretTableRules =
     \<lparr> ruleSets = [\<lparr> rs_tableId = ''Secret'', colIds = AllColumns, body = [],
                     defaultPermissions = allBits Deny \<rparr>],
       userAttributes = [] \<rparr>"

definition secretDocData :: docData where
  "secretDocData =
     \<lparr> findRow = (\<lambda>t c v. if t = ''_grist_Tables'' \<and> c = ''tableId''
                           then Some (if v = CStr ''Secret'' then 1 else 0) else None),
       getRecords =
         (\<lambda>t. if t = ''_grist_Views_section''
               then Some [(7, [(''tableRef'', CNum 1), (''parentId'', CNum 5)])]
               else if t = ''_grist_Tables_column''
               then Some [(3, [(''parentId'', CNum 1), (''colId'', CStr ''salary'')]),
                          (4, [(''parentId'', CNum 2), (''colId'', CStr ''name'')])]
               else if t = ''_grist_Views_section_field''
               then Some [(9, [(''parentId'', CNum 7), (''colRef'', CNum 3)])]
               else None) \<rparr>"

definition secretTableEngine :: granularAccess where
  "secretTableEngine =
     (snd (update specDeps secretTableRules freshEngine))
       \<lparr> docData := secretDocData, fetchQueryFromDB := noStore, rowSnapshots := None \<rparr>"

definition secretMetaTables :: "(string \<times> tableDataAction) list" where
  "secretMetaTables =
     [(''_grist_Tables'',
       \<lparr> td_tableId = ''_grist_Tables'', td_rowIds = [1, 2],
         td_columns = [(''tableId'', [CStr ''Secret'', CStr ''Public''])] \<rparr>),
      (''_grist_Views'',
       \<lparr> td_tableId = ''_grist_Views'', td_rowIds = [5],
         td_columns = [(''name'', [CStr ''Payroll''])] \<rparr>),
      (''_grist_Views_section'',
       \<lparr> td_tableId = ''_grist_Views_section'', td_rowIds = [7],
         td_columns = [(''title'', [CStr ''Pay'']), (''tableRef'', [CNum 1])] \<rparr>),
      (''_grist_Tables_column'',
       \<lparr> td_tableId = ''_grist_Tables_column'', td_rowIds = [3, 4],
         td_columns = [(''colId'', [CStr ''salary'', CStr ''name'']),
                       (''label'', [CStr ''Salary'', CStr ''Name'']),
                       (''formula'', [CStr [], CStr []]),
                       (''widgetOptions'', [CStr [], CStr []]),
                       (''type'', [CStr ''Numeric'', CStr ''Text'']),
                       (''parentId'', [CNum 1, CNum 2])] \<rparr>),
      (''_grist_Views_section_field'',
       \<lparr> td_tableId = ''_grist_Views_section_field'', td_rowIds = [9],
         td_columns = [(''filter'', [CStr []]), (''widgetOptions'', [CStr []]),
                       (''parentId'', [CNum 7])] \<rparr>)]"

text \<open>The metadata tables with what belongs to \<^verbatim>\<open>Secret\<close> overwritten.\<close>

definition censoredMetaTables :: "(string \<times> tableDataAction) list" where
  "censoredMetaTables =
     [(''_grist_Tables'',
       \<lparr> td_tableId = ''_grist_Tables'', td_rowIds = [1, 2],
         td_columns = [(''tableId'', [CStr [], CStr ''Public''])] \<rparr>),
      (''_grist_Views'',
       \<lparr> td_tableId = ''_grist_Views'', td_rowIds = [5],
         td_columns = [(''name'', [CStr []])] \<rparr>),
      (''_grist_Views_section'',
       \<lparr> td_tableId = ''_grist_Views_section'', td_rowIds = [7],
         td_columns = [(''title'', [CStr []]), (''tableRef'', [CNum 0])] \<rparr>),
      (''_grist_Tables_column'',
       \<lparr> td_tableId = ''_grist_Tables_column'', td_rowIds = [3, 4],
         td_columns = [(''colId'', [CStr [], CStr ''name'']),
                       (''label'', [CStr [], CStr ''Name'']),
                       (''formula'', [CStr [], CStr []]),
                       (''widgetOptions'', [CStr [], CStr []]),
                       (''type'', [CStr ''Any'', CStr ''Text'']),
                       (''parentId'', [CNum 0, CNum 2])] \<rparr>),
      (''_grist_Views_section_field'',
       \<lparr> td_tableId = ''_grist_Views_section_field'', td_rowIds = [9],
         td_columns = [(''filter'', [CStr []]), (''widgetOptions'', [CStr []]),
                       (''parentId'', [CNum 0])] \<rparr>)]"

text \<open>
  A rule set with three rules: one needs the row, one throws another error, one has no
  predicate.
\<close>

definition needsRowRule :: rule where
  "needsRowRule =
     \<lparr> aclFormula = ''rec.owner == user.Email'', matchFunc = Some ownerMatch,
       permissions = (allBits Unset) \<lparr> read := Allow, perm_update := Deny \<rparr>,
       permissionsText = ''+R-U'' \<rparr>"

definition throwingRule :: rule where
  "throwingRule =
     \<lparr> aclFormula = ''user.boom()'',
       matchFunc = Some (\<lambda>input. Inl (Thrown None ''boom'')),
       permissions = allBits Allow, permissionsText = ''all'' \<rparr>"

definition noPredicateRule :: rule where
  "noPredicateRule =
     \<lparr> aclFormula = ''?'', matchFunc = None,
       permissions = allBits Allow, permissionsText = ''all'' \<rparr>"

definition faultyRuleSet :: ruleSet where
  "faultyRuleSet =
     \<lparr> rs_tableId = ''T'', colIds = AllColumns,
       body = [needsRowRule, throwingRule, noPredicateRule],
       defaultPermissions = allBits Unset \<rparr>"

section \<open>Auxiliary facts\<close>

subsection \<open>Results, loops and the store invariant\<close>

lemma rbind_Inl [simp]: "rbind (Inl e) f = Inl e"
  by (simp add: rbind_def)

lemma rbind_Inr [simp]: "rbind (Inr x) f = f x"
  by (simp add: rbind_def)

lemma rbind_eq_Inr: "rbind m f = Inr y \<longleftrightarrow> (\<exists>x. m = Inr x \<and> f x = Inr y)"
  by (cases m) simp_all

lemma set_uniqueFirst: "set (uniqueFirst seen xs) = set xs - set seen"
  by (induction seen xs rule: uniqueFirst.induct) auto

lemma forEachState_characteristicTables:
  assumes "\<And>st x. \<exists>ct. snd (f st x) = st \<lparr> characteristicTables := ct \<rparr>"
  shows "\<exists>ct. snd (forEachState f st xs) = st \<lparr> characteristicTables := ct \<rparr>"
proof (induction xs arbitrary: st)
  case Nil
  have "st = st \<lparr> characteristicTables := characteristicTables st \<rparr>" by simp
  then show ?case by (metis forEachState.simps(1) snd_conv)
next
  case (Cons x xs)
  obtain err st' where fx: "f st x = (err, st')" by (cases "f st x")
  from assms [of st x] fx obtain ct where st': "st' = st \<lparr> characteristicTables := ct \<rparr>" by auto
  show ?case
  proof (cases err)
    case None
    from Cons.IH [of st'] obtain ct' where "snd (forEachState f st' xs) = st' \<lparr> characteristicTables := ct' \<rparr>"
      by blast
    with fx None st' show ?thesis by (auto intro: exI [of _ ct'])
  next
    case (Some e)
    with fx st' show ?thesis by (auto intro: exI [of _ ct])
  qed
qed

lemma updateCharacteristicTable_fields:
  "\<exists>ct. snd (updateCharacteristicTable D ga clause) = ga \<lparr> characteristicTables := ct \<rparr>"
proof -
  have triv: "ga = ga \<lparr> characteristicTables := characteristicTables ga \<rparr>" by simp
  show ?thesis
    unfolding updateCharacteristicTable_def
    by (auto split: sum.splits option.splits intro: exI [of _ "characteristicTables ga"])
qed

lemma updateCharacteristicTables_fields:
  "\<exists>ct. snd (updateCharacteristicTables D ga) = ga \<lparr> characteristicTables := ct \<rparr>"
proof -
  from forEachState_characteristicTables [of "updateCharacteristicTable D", OF updateCharacteristicTable_fields]
  obtain ct where
    "snd (forEachState (updateCharacteristicTable D) (ga \<lparr> characteristicTables := [] \<rparr>)
            (map snd (userAttributeRules ga))) = ga \<lparr> characteristicTables := [] \<rparr> \<lparr> characteristicTables := ct \<rparr>"
    by blast
  then show ?thesis by (auto simp: updateCharacteristicTables_def)
qed

lemma storeInv_characteristicTables [simp]:
  "storeInv D (ga \<lparr> characteristicTables := ct \<rparr>) = storeInv D ga"
  by (simp add: storeInv_def)

lemma storeInv_update: 
  assumes "storeInv D ga"
  shows "storeInv D (snd (update D acl ga))"
proof (cases "foldResult (updateStep D)
                \<lparr> ix_colRuleSets = [], ix_tableColMap = [], ix_tableRuleSets = [],
                  ix_defaultRuleSet = DEFAULT_RULE_SET D \<rparr> (ruleSets acl)")
  case (Inl e)
  then have ne: "ruleSets acl \<noteq> []" by auto
  from Inl have "snd (update D acl ga) = ga \<lparr> haveRules := (0 < length (ruleSets acl)) \<rparr>"
    by (simp add: update_def)
  with assms ne show ?thesis by (simp add: storeInv_def)
next
  case (Inr ix)
  let ?ga2 = "ga \<lparr> haveRules := (0 < length (ruleSets acl)),
                   columnRuleSets := ix_colRuleSets ix,
                   tableColumnMap := ix_tableColMap ix,
                   tableRuleSets := ix_tableRuleSets ix,
                   defaultRuleSet := ix_defaultRuleSet ix,
                   tableIds := uniqueFirst []
                                 (map fst (ix_colRuleSets ix) @ map fst (ix_tableRuleSets ix)),
                   userAttributeRules :=
                     foldl (\<lambda>m userAttr. AList.update (ua_name userAttr) userAttr m) []
                       (userAttributes acl) \<rparr>"
  from Inr have u: "update D acl ga = updateCharacteristicTables D ?ga2"
    by (simp add: update_def)
  have "storeInv D ?ga2"
  proof (cases "ruleSets acl")
    case Nil
    with Inr show ?thesis by (auto simp: storeInv_def)
  next
    case (Cons r rs)
    then show ?thesis by (auto simp: storeInv_def set_uniqueFirst)
  qed
  moreover obtain ct where "snd (updateCharacteristicTables D ?ga2) = ?ga2 \<lparr> characteristicTables := ct \<rparr>"
    using updateCharacteristicTables_fields by blast
  ultimately show ?thesis using u by simp
qed

lemma reachable_storeInv: "reachable D ga \<Longrightarrow> storeInv D ga"
proof (induction rule: reachable.induct)
  case (reachable_new dd fetch)
  show ?case by (simp add: storeInv_def newGranularAccess_def)
next
  case (reachable_update ga acl)
  then show ?case by (simp add: storeInv_update)
next
  case (reachable_outside ga dd fetch snaps)
  then show ?case by (simp add: storeInv_def)
qed


lemma read_mergePermissions [simp]: "read (mergePermissions ps f) = f (map read ps)"
  by (simp add: mergePermissions_def)

lemma fullBits_Allow: "fullBits bits = Allow \<Longrightarrow> list_all (\<lambda>b. b = Allow) bits"
  by (simp add: fullBits_def split: if_splits)

lemma tableBits_single_Allow [simp]: "tableBits [Allow] = Allow"
  by (simp add: tableBits_def)

lemma no_rules_for_table:
  assumes "storeInv D ga" and "t \<notin> set (tableIds ga)"
  shows "getAllColumnRuleSets ga t = []" and "getTableDefaultRuleSet ga t = None"
proof -
  from assms have "t \<notin> fst ` set (columnRuleSets ga)" and "t \<notin> fst ` set (tableRuleSets ga)"
    by (auto simp: storeInv_def)
  then have "map_of (columnRuleSets ga) t = None" and "map_of (tableRuleSets ga) t = None"
    by (simp_all add: map_of_eq_None_iff)
  then show "getAllColumnRuleSets ga t = []" and "getTableDefaultRuleSet ga t = None"
    by (simp_all add: getAllColumnRuleSets_def getTableDefaultRuleSet_def)
qed

lemma tableAccess_allow:
  assumes inv: "storeInv D ga" and full: "read (pi_getFullAccess D ga input) = Allow"
  shows "read (pi_getTableAccess D ga input t) = Allow"
proof -
  from full have all:
    "list_all (\<lambda>b. b = Allow)
       (map read (map (pi_getTableAccess D ga input) (getAllTableIds ga)
                    @ [getDocDefaultAccess D ga input]))"
    by (auto simp: pi_getFullAccess_def dest: fullBits_Allow)
  show ?thesis
  proof (cases "t \<in> set (tableIds ga)")
    case True
    with all show ?thesis by (auto simp: list_all_iff getAllTableIds_def)
  next
    case False
    from all have "read (getDocDefaultAccess D ga input) = Allow" by (simp add: list_all_iff)
    with no_rules_for_table [OF inv False] show ?thesis
      by (simp add: pi_getTableAccess_def getTableDefaultAccess_def)
  qed
qed

lemma mapResult_singletons:
  assumes "\<And>i a. a \<in> set xs \<Longrightarrow> f (i, a) = Inr [a]"
  shows "mapResult f (enumerate n xs) = Inr (map (\<lambda>a. [a]) xs)"
  using assms by (induction xs arbitrary: n) simp_all

lemma concat_singletons: "concat (map (\<lambda>a. [a]) xs) = xs"
  by (induction xs) simp_all

lemma foldResult_invariant:
  assumes "\<And>acc x acc'. P acc \<Longrightarrow> f acc x = Inr acc' \<Longrightarrow> P acc'"
    and "P acc" and "foldResult f acc xs = Inr r"
  shows "P r"
  using assms(2,3)
proof (induction xs arbitrary: acc)
  case Nil
  then show ?case by simp
next
  case (Cons x xs)
  then show ?case by (auto split: sum.splits intro: assms(1))
qed

lemma getUserStep_Access:
  assumes "map_of u ''Access'' = Some v" and "getUserStep D ga u clause = Inr u'"
  shows "map_of u' ''Access'' = Some v"
proof (cases "ua_name clause \<in> set (map fst u) \<union> set objectPrototypeNames")
  case True
  with assms show ?thesis by (simp add: getUserStep_def)
next
  case False
  from assms(1) have "''Access'' \<in> fst ` set u"
    by (metis map_of_eq_None_iff option.distinct(1))
  with False have ne: "ua_name clause \<noteq> ''Access''" by force
  with assms False show ?thesis
    by (auto simp: getUserStep_def Let_def update_conv' rbind_eq_Inr
             split: option.splits)
qed

lemma getUser_Access:
  assumes "getUser D ga s = Inr u"
  shows "map_of u ''Access'' = Some (Cell (roleCell (sessionAccess s)))"
  using assms unfolding getUser_def Let_def
  by (elim foldResult_invariant [rotated 2]) (auto intro: getUserStep_Access)

lemma docDefault_read:
  assumes laws: "latticeReadLaws D" and role: "sessionAccess s \<noteq> NoAccess"
    and u: "map_of u ''Access'' = Some (Cell (roleCell (sessionAccess s)))"
  shows "read (processRule D \<lparr> in_user = u, in_rec = r \<rparr> (DEFAULT_RULE_SET D) None) = Allow"
proof -
  from laws have
    fin: "\<And>a b. read a = Allow \<or> read a = Deny \<Longrightarrow> read (mergePartialPermissions D a b) = read a"
    and uns: "\<And>a b. read a = Unset \<Longrightarrow> read (mergePartialPermissions D a b) = read b"
    and mix: "\<And>p. read p = Allow \<or> read p = Deny \<Longrightarrow> read (toMixed D p) = read p"
    and pall: "read (parsePermissions D ''all'') = Allow"
    and pr: "read (parsePermissions D ''+R'') = Allow"
    unfolding latticeReadLaws_def by blast+
  have e: "read emptyPermissionSet = Unset" by (simp add: emptyPermissionSet_def)
  from role u show ?thesis
    by (cases "sessionAccess s")
       (simp_all add: processRule_def evaluateRule_def DEFAULT_RULE_SET_def ruleStep_def
          callMatchFunc_def userFieldString_def fin uns mix pall pr e)
qed

subsection \<open>The operators of the spec\<close>

lemma allBits_eq:
  "allBits v = \<lparr> read = v, perm_update = v, perm_create = v, perm_delete = v,
                 perm_schemaEdit = v, perm_reserved = v \<rparr>"
  by (simp add: allBits_def mergePermissions_def)

lemma spec_merge:
  "mergePartialPermissions specDeps a b =
     \<lparr> read = specCombine (read a) (read b),
       perm_update = specCombine (perm_update a) (perm_update b),
       perm_create = specCombine (perm_create a) (perm_create b),
       perm_delete = specCombine (perm_delete a) (perm_delete b),
       perm_schemaEdit = specCombine (perm_schemaEdit a) (perm_schemaEdit b),
       perm_reserved = specCombine (perm_reserved a) (perm_reserved b) \<rparr>"
  by (simp add: specDeps_def mergePermissions_def)

lemma spec_toMixed:
  "toMixed specDeps p =
     \<lparr> read = specCollapse (read p),
       perm_update = specCollapse (perm_update p),
       perm_create = specCollapse (perm_create p),
       perm_delete = specCollapse (perm_delete p),
       perm_schemaEdit = specCollapse (perm_schemaEdit p),
       perm_reserved = specCollapse (perm_reserved p) \<rparr>"
  by (simp add: specDeps_def mergePermissions_def)

lemma spec_parse:
  "parsePermissions specDeps ''all'' = allBits Allow"
  "parsePermissions specDeps ''none'' = allBits Deny"
  "parsePermissions specDeps ''+R'' = (allBits Unset) \<lparr> read := Allow \<rparr>"
  by (simp_all add: specDeps_def specParsePermissions_def)

lemma specCombine_simps [simp]:
  "specCombine Allow b = Allow" "specCombine Deny b = Deny" "specCombine Unset b = b"
  by (simp_all add: specCombine_def)

lemma specDeps_laws: "latticeReadLaws specDeps"
  by (auto simp: latticeReadLaws_def spec_merge spec_toMixed spec_parse allBits_eq)

lemma emptyPermissionSet_eq: "emptyPermissionSet = allBits Unset"
  by (simp add: emptyPermissionSet_def allBits_def)

subsection \<open>Users and the built-in default under the operators of the spec\<close>

lemma getUser_plain:
  assumes "userAttributeRules ga = []"
  shows "getUser D ga s =
           Inr [(''Access'', Cell (roleCell (sessionAccess s))),
                (''UserID'', Cell (case sessionUser s of None \<Rightarrow> CNull
                                   | Some f \<Rightarrow> orNull (CNum (fu_id f)))),
                (''Email'', Cell (case sessionUser s of None \<Rightarrow> CNull
                                  | Some f \<Rightarrow> orNull (CStr (fu_email f)))),
                (''Name'', Cell (case sessionUser s of None \<Rightarrow> CNull
                                 | Some f \<Rightarrow> orNull (CStr (fu_name f))))]"
  using assms by (simp add: getUser_def Let_def)

lemma spec_defaultRule:
  assumes "map_of u ''Access'' = Some (Cell (roleCell r))"
  shows "processRule specDeps \<lparr> in_user = u, in_rec = rc \<rparr> (DEFAULT_RULE_SET specDeps) None =
           (case r of Viewers \<Rightarrow> (allBits Deny) \<lparr> read := Allow \<rparr>
                    | NoAccess \<Rightarrow> allBits Deny
                    | _ \<Rightarrow> allBits Allow)"
  using assms
  by (cases r)
     (simp_all add: processRule_def evaluateRule_def DEFAULT_RULE_SET_def ruleStep_def
        callMatchFunc_def userFieldString_def spec_merge spec_toMixed spec_parse allBits_eq
        emptyPermissionSet_eq)

subsection \<open>The concrete engines\<close>

lemma update_no_attributes:
  assumes "userAttributes acl = []"
    and "foldResult (updateStep D)
           \<lparr> ix_colRuleSets = [], ix_tableColMap = [], ix_tableRuleSets = [],
             ix_defaultRuleSet = DEFAULT_RULE_SET D \<rparr> (ruleSets acl) = Inr ix"
  shows "update D acl ga =
           (None, ga \<lparr> haveRules := (0 < length (ruleSets acl)),
                        columnRuleSets := ix_colRuleSets ix,
                        tableColumnMap := ix_tableColMap ix,
                        tableRuleSets := ix_tableRuleSets ix,
                        defaultRuleSet := ix_defaultRuleSet ix,
                        tableIds := uniqueFirst []
                                      (map fst (ix_colRuleSets ix) @ map fst (ix_tableRuleSets ix)),
                        userAttributeRules := [],
                        characteristicTables := [] \<rparr>)"
  using assms by (simp add: update_def updateCharacteristicTables_def)

lemma freshEngine_fields:
  "haveRules freshEngine = False" "columnRuleSets freshEngine = []"
  "tableColumnMap freshEngine = []" "tableRuleSets freshEngine = []"
  "defaultRuleSet freshEngine = DEFAULT_RULE_SET specDeps" "tableIds freshEngine = []"
  "userAttributeRules freshEngine = []" "characteristicTables freshEngine = []"
  "rowSnapshots freshEngine = None" "docData freshEngine = noDocData"
  "fetchQueryFromDB freshEngine = noStore"
  by (simp_all add: freshEngine_def newGranularAccess_def)

lemma secretColumnEngine_eq:
  "secretColumnEngine =
     freshEngine \<lparr> haveRules := True,
                    columnRuleSets := [(''T'', ruleSets secretColumnRules)],
                    tableColumnMap := [(''T:sec'', hd (ruleSets secretColumnRules))],
                    tableIds := [''T''] \<rparr>"
proof -
  have fr: "foldResult (updateStep specDeps)
              \<lparr> ix_colRuleSets = [], ix_tableColMap = [], ix_tableRuleSets = [],
                ix_defaultRuleSet = DEFAULT_RULE_SET specDeps \<rparr> (ruleSets secretColumnRules)
            = Inr \<lparr> ix_colRuleSets = [(''T'', ruleSets secretColumnRules)],
                    ix_tableColMap = [(''T:sec'', hd (ruleSets secretColumnRules))],
                    ix_tableRuleSets = [],
                    ix_defaultRuleSet = DEFAULT_RULE_SET specDeps \<rparr>"
    by (simp add: secretColumnRules_def updateStep_def)
  have ua: "userAttributes secretColumnRules = []" by (simp add: secretColumnRules_def)
  have len: "0 < length (ruleSets secretColumnRules)" by (simp add: secretColumnRules_def)
  show ?thesis
    unfolding secretColumnEngine_def update_no_attributes [OF ua fr]
    using len by (simp add: freshEngine_def newGranularAccess_def)
qed

lemma reachable_freshEngine: "reachable specDeps freshEngine"
  unfolding freshEngine_def by (rule reachable_new)

lemma reachable_secretColumnEngine: "reachable specDeps secretColumnEngine"
  unfolding secretColumnEngine_def by (intro reachable_update reachable_freshEngine)

lemma secretColumnEngine_fields:
  "haveRules secretColumnEngine = True"
  "getAllColumnRuleSets secretColumnEngine ''T'' = ruleSets secretColumnRules"
  "getTableDefaultRuleSet secretColumnEngine t = None"
  "getDocDefaultRuleSet secretColumnEngine = DEFAULT_RULE_SET specDeps"
  "getAllTableIds secretColumnEngine = [''T'']"
  "userAttributeRules secretColumnEngine = []"
  "getColumnRuleSet secretColumnEngine ''T'' ''sec'' = Some (hd (ruleSets secretColumnRules))"
  "getColumnRuleSet secretColumnEngine ''T'' ''pub'' = None"
  "getColumnRuleSet secretColumnEngine ''T'' ''x'' = None"
  by (simp_all add: secretColumnEngine_eq freshEngine_fields getAllColumnRuleSets_def
        getTableDefaultRuleSet_def getDocDefaultRuleSet_def getAllTableIds_def
        getColumnRuleSet_def)

lemma secretColumn_verdicts:
  assumes "map_of u ''Access'' = Some (Cell (roleCell r))"
  shows "pi_getColumnAccess specDeps secretColumnEngine \<lparr> in_user = u, in_rec = rc \<rparr> ''T'' ''sec'' =
           (case r of Viewers \<Rightarrow> allBits Deny | NoAccess \<Rightarrow> allBits Deny | _ \<Rightarrow> allBits Allow)"
    and "pi_getTableAccess specDeps secretColumnEngine \<lparr> in_user = u, in_rec = rc \<rparr> ''T'' =
           (case r of Viewers \<Rightarrow> (allBits Deny) \<lparr> read := MixedColumns \<rparr>
                    | NoAccess \<Rightarrow> allBits Deny | _ \<Rightarrow> allBits Allow)"
    and "pi_getFullAccess specDeps secretColumnEngine \<lparr> in_user = u, in_rec = rc \<rparr> =
           (case r of Viewers \<Rightarrow> (allBits Deny) \<lparr> read := Mixed \<rparr>
                    | NoAccess \<Rightarrow> allBits Deny | _ \<Rightarrow> allBits Allow)"
proof -
  let ?input = "\<lparr> in_user = u, in_rec = rc \<rparr>"
  have doc: "getDocDefaultAccess specDeps secretColumnEngine ?input =
               (case r of Viewers \<Rightarrow> (allBits Deny) \<lparr> read := Allow \<rparr>
                        | NoAccess \<Rightarrow> allBits Deny | _ \<Rightarrow> allBits Allow)"
    using spec_defaultRule [OF assms]
    by (simp add: getDocDefaultAccess_def secretColumnEngine_fields)
  have tdef: "getTableDefaultAccess specDeps secretColumnEngine ?input t =
                getDocDefaultAccess specDeps secretColumnEngine ?input" for t
    by (simp add: getTableDefaultAccess_def secretColumnEngine_fields)
  have col: "processColumnRule specDeps secretColumnEngine ?input (hd (ruleSets secretColumnRules)) =
               (case r of Viewers \<Rightarrow> allBits Deny | NoAccess \<Rightarrow> allBits Deny | _ \<Rightarrow> allBits Allow)"
    using assms
    by (cases r)
       (simp_all add: processColumnRule_def tdef doc processRule_def evaluateRule_def
          secretColumnRules_def ruleStep_def callMatchFunc_def userFieldString_def
          spec_merge spec_toMixed allBits_eq emptyPermissionSet_eq)
  show "pi_getColumnAccess specDeps secretColumnEngine ?input ''T'' ''sec'' =
           (case r of Viewers \<Rightarrow> allBits Deny | NoAccess \<Rightarrow> allBits Deny | _ \<Rightarrow> allBits Allow)"
    by (simp add: pi_getColumnAccess_def secretColumnEngine_fields col)
  have hdrs: "ruleSets secretColumnRules = [hd (ruleSets secretColumnRules)]"
    by (simp add: secretColumnRules_def)
  show tbl: "pi_getTableAccess specDeps secretColumnEngine ?input ''T'' =
           (case r of Viewers \<Rightarrow> (allBits Deny) \<lparr> read := MixedColumns \<rparr>
                    | NoAccess \<Rightarrow> allBits Deny | _ \<Rightarrow> allBits Allow)"
    apply (simp add: pi_getTableAccess_def secretColumnEngine_fields tdef doc)
    apply (subst hdrs)
    apply (simp add: col)
    apply (cases r; simp add: mergePermissions_def allBits_eq tableBits_def)
    done
  show "pi_getFullAccess specDeps secretColumnEngine ?input =
           (case r of Viewers \<Rightarrow> (allBits Deny) \<lparr> read := Mixed \<rparr>
                    | NoAccess \<Rightarrow> allBits Deny | _ \<Rightarrow> allBits Allow)"
    by (cases r; simp add: pi_getFullAccess_def secretColumnEngine_fields tbl doc
          mergePermissions_def allBits_eq fullBits_def)
qed


lemma secretColumn_session:
  obtains u where "getUser specDeps secretColumnEngine (sessionOf r) = Inr u"
    and "map_of u ''Access'' = Some (Cell (roleCell r))"
  by (simp add: getUser_plain secretColumnEngine_fields sessionOf_def)

lemma secretColumn_tableAccess:
  "getTableAccess specDeps secretColumnEngine (sessionOf r) ''T'' =
     Inr (case r of Viewers \<Rightarrow> (allBits Deny) \<lparr> read := MixedColumns \<rparr>
                  | NoAccess \<Rightarrow> allBits Deny | _ \<Rightarrow> allBits Allow)"
proof -
  obtain u where "getUser specDeps secretColumnEngine (sessionOf r) = Inr u"
    and "map_of u ''Access'' = Some (Cell (roleCell r))"
    by (rule secretColumn_session)
  then show ?thesis
    by (simp add: getTableAccess_def getAccess_def secretColumn_verdicts(2))
qed

lemma secretColumn_canReadEverything:
  "canReadEverything specDeps secretColumnEngine (sessionOf r) = Inr (r = Owners \<or> r = Editors)"
proof -
  obtain u where "getUser specDeps secretColumnEngine (sessionOf r) = Inr u"
    and "map_of u ''Access'' = Some (Cell (roleCell r))"
    by (rule secretColumn_session)
  then have "canReadEverything specDeps secretColumnEngine (sessionOf r) =
               Inr (read (case r of Viewers \<Rightarrow> (allBits Deny) \<lparr> read := Mixed \<rparr>
                                  | NoAccess \<Rightarrow> allBits Deny | _ \<Rightarrow> allBits Allow) = Allow)"
    by (simp add: canReadEverything_def getAccess_def secretColumn_verdicts(3))
  then show ?thesis by (cases r) (simp_all add: allBits_eq)
qed

lemma secretColumn_nuanced:
  "hasNuancedAccess secretColumnEngine (sessionOf r) = (r \<noteq> Owners)"
  by (simp add: hasNuancedAccess_def hasFullAccess_def secretColumnEngine_fields sessionOf_def)

lemma fresh_session:
  obtains u where "getUser specDeps freshEngine (sessionOf r) = Inr u"
    and "map_of u ''Access'' = Some (Cell (roleCell r))"
  by (simp add: getUser_plain freshEngine_fields sessionOf_def)

lemma fresh_verdicts:
  assumes "map_of u ''Access'' = Some (Cell (roleCell r))"
  shows "pi_getTableAccess specDeps freshEngine \<lparr> in_user = u, in_rec = rc \<rparr> t =
           (case r of Viewers \<Rightarrow> (allBits Deny) \<lparr> read := Allow \<rparr>
                    | NoAccess \<Rightarrow> allBits Deny | _ \<Rightarrow> allBits Allow)"
    and "pi_getColumnAccess specDeps freshEngine \<lparr> in_user = u, in_rec = rc \<rparr> t c =
           (case r of Viewers \<Rightarrow> (allBits Deny) \<lparr> read := Allow \<rparr>
                    | NoAccess \<Rightarrow> allBits Deny | _ \<Rightarrow> allBits Allow)"
proof -
  let ?input = "\<lparr> in_user = u, in_rec = rc \<rparr>"
  have doc: "getDocDefaultAccess specDeps freshEngine ?input =
               (case r of Viewers \<Rightarrow> (allBits Deny) \<lparr> read := Allow \<rparr>
                        | NoAccess \<Rightarrow> allBits Deny | _ \<Rightarrow> allBits Allow)"
    using spec_defaultRule [OF assms]
    by (simp add: getDocDefaultAccess_def getDocDefaultRuleSet_def freshEngine_fields)
  show "pi_getTableAccess specDeps freshEngine ?input t =
           (case r of Viewers \<Rightarrow> (allBits Deny) \<lparr> read := Allow \<rparr>
                    | NoAccess \<Rightarrow> allBits Deny | _ \<Rightarrow> allBits Allow)"
    by (cases r; simp add: pi_getTableAccess_def getAllColumnRuleSets_def
          getTableDefaultAccess_def getTableDefaultRuleSet_def freshEngine_fields doc
          mergePermissions_def allBits_eq tableBits_def)
  show "pi_getColumnAccess specDeps freshEngine ?input t c =
           (case r of Viewers \<Rightarrow> (allBits Deny) \<lparr> read := Allow \<rparr>
                    | NoAccess \<Rightarrow> allBits Deny | _ \<Rightarrow> allBits Allow)"
    by (simp add: pi_getColumnAccess_def getColumnRuleSet_def getTableDefaultAccess_def
          getTableDefaultRuleSet_def freshEngine_fields doc)
qed

lemma map_filter_id_single [simp]:
  "List.map_filter id [x] = (case x of None \<Rightarrow> [] | Some y \<Rightarrow> [y])"
  by (cases x) (simp_all add: List.map_filter_simps)

lemma filter_keys_empty:
  "(filter (\<lambda>kv. P (fst kv)) cv = []) = list_all (\<lambda>c. \<not> P c) (map fst cv)"
  by (induction cv) auto

lemma pruneColumns_shape:
  "pruneColumns D ga a permInfo t =
     (case schemaColumn a of
        Some c \<Rightarrow> columnSchemaAction D ga permInfo t c
      | None \<Rightarrow>
          (case actionColumnIds a of
             None \<Rightarrow> Inr (Some a)
           | Some cs \<Rightarrow>
               Inr (if list_all (\<lambda>c. \<not> colReadable D ga permInfo t c) cs then None
                    else Some (keepColumns (colReadable D ga permInfo t) a))))"
  by (cases a) (simp_all add: filterColumns_def filter_keys_empty Let_def)

lemma colReadable_fun:
  "colReadable D ga permInfo t = (\<lambda>c. read (pi_getColumnAccess D ga permInfo t c) \<noteq> Deny)"
  by (rule ext) (simp add: colReadable_def)

lemma foldl_ruleStep:
  "foldl (ruleStep D rs input) (p, lg) bs =
     (foldl (\<lambda>p r. case ruleDelta r input of None \<Rightarrow> p
                    | Some d \<Rightarrow> mergePartialPermissions D p d) p bs,
      lg @ List.map_filter (\<lambda>r. ruleWarning rs r input) bs)"
proof (induction bs arbitrary: p lg)
  case Nil
  show ?case by (simp add: List.map_filter_simps)
next
  case (Cons b bs)
  have step: "ruleStep D rs input (p, lg) b =
                ((case ruleDelta b input of None \<Rightarrow> p
                  | Some d \<Rightarrow> mergePartialPermissions D p d),
                 lg @ (case ruleWarning rs b input of None \<Rightarrow> [] | Some w \<Rightarrow> [w]))"
    by (simp add: ruleStep_def ruleDelta_def ruleWarning_def split: sum.splits)
  show ?case
    by (simp add: step Cons.IH List.map_filter_simps split: option.splits)
qed

lemma makePartialPermissions_bits:
  "sel \<in> set bitSelectors \<Longrightarrow> sel (makePartialPermissions p) = weaken (sel p)"
  by (auto simp: bitSelectors_def makePartialPermissions_def mergePermissions_def)

lemma weaken_not_final: "weaken v \<noteq> Allow \<and> weaken v \<noteq> Deny"
  by (cases v) simp_all

lemma ownerEngine_eq:
  "ownerEngine =
     freshEngine \<lparr> haveRules := True,
                    tableRuleSets := [(''T'', hd (ruleSets ownerRules))],
                    tableIds := [''T''],
                    rowSnapshots := Some [(ownedRows, ownedRows), (aliceRows, ownedRows)] \<rparr>"
proof -
  have fr: "foldResult (updateStep specDeps)
              \<lparr> ix_colRuleSets = [], ix_tableColMap = [], ix_tableRuleSets = [],
                ix_defaultRuleSet = DEFAULT_RULE_SET specDeps \<rparr> (ruleSets ownerRules)
            = Inr \<lparr> ix_colRuleSets = [], ix_tableColMap = [],
                    ix_tableRuleSets = [(''T'', hd (ruleSets ownerRules))],
                    ix_defaultRuleSet = DEFAULT_RULE_SET specDeps \<rparr>"
    by (simp add: ownerRules_def updateStep_def)
  have ua: "userAttributes ownerRules = []" by (simp add: ownerRules_def)
  have len: "0 < length (ruleSets ownerRules)" by (simp add: ownerRules_def)
  show ?thesis
    unfolding ownerEngine_def update_no_attributes [OF ua fr]
    using len by (simp add: freshEngine_def newGranularAccess_def)
qed

lemma ownerEngine_fields:
  "getAllColumnRuleSets ownerEngine t = []"
  "getTableDefaultRuleSet ownerEngine ''T'' = Some (hd (ruleSets ownerRules))"
  "getDocDefaultRuleSet ownerEngine = DEFAULT_RULE_SET specDeps"
  "userAttributeRules ownerEngine = []"
  "rowSnapshots ownerEngine = Some [(ownedRows, ownedRows), (aliceRows, ownedRows)]"
  by (simp_all add: ownerEngine_eq freshEngine_fields getAllColumnRuleSets_def
        getTableDefaultRuleSet_def getDocDefaultRuleSet_def)

lemma bob_user: "getUser specDeps ownerEngine bobSession = Inr bobUser"
  by (simp add: getUser_plain ownerEngine_fields bobSession_def orNull_def bobUser_def)

lemma bobUser_fields:
  "map_of bobUser ''Access'' = Some (Cell (roleCell Viewers))"
  "map_of bobUser ''Email'' = Some (Cell (CStr ''bob''))"
  by (simp_all add: bobUser_def)

text \<open>Under the owner rules, Bob reads a row exactly when its owner is \<^verbatim>\<open>bob\<close>.\<close>

lemma owner_row_verdict:
  assumes "map_of u ''Access'' = Some (Cell (roleCell Viewers))"
  shows "read (pi_getTableAccess specDeps ownerEngine (rowInput u data idx) ''T'') =
           (case RecordView_get (RecordView data idx) ''owner'' of
              Inr (Some c) \<Rightarrow> if map_of u ''Email'' = Some (Cell c) then Allow else Deny
            | _ \<Rightarrow> Deny)"
proof -
  let ?input = "rowInput u data idx"
  have doc: "getDocDefaultAccess specDeps ownerEngine ?input = (allBits Deny) \<lparr> read := Allow \<rparr>"
    using spec_defaultRule [OF assms]
    by (simp add: getDocDefaultAccess_def ownerEngine_fields rowInput_def)
  have "read (processRule specDeps ?input (hd (ruleSets ownerRules))
                (Some ((allBits Deny) \<lparr> read := Allow \<rparr>))) =
           (case RecordView_get (RecordView data idx) ''owner'' of
              Inr (Some c) \<Rightarrow> if map_of u ''Email'' = Some (Cell c) then Allow else Deny
            | _ \<Rightarrow> Deny)"
    by (simp add: processRule_def evaluateRule_def ownerRules_def ruleStep_def callMatchFunc_def
          ownerMatch_def rowInput_def spec_merge spec_toMixed allBits_eq emptyPermissionSet_eq
          split: sum.splits option.splits)
  then show ?thesis
    by (simp add: pi_getTableAccess_def ownerEngine_fields getTableDefaultAccess_def doc
          tableBits_def split: sum.splits option.splits)
qed

lemma bob_forbidden:
  "getForbiddenRows specDeps ownerEngine bobSession ownedRows [1, 2] = Inr [1]"
  "getForbiddenRows specDeps ownerEngine bobSession ownedRows [2, 1] = Inr [1]"
  "getForbiddenRows specDeps ownerEngine bobSession ownedRows [2] = Inr []"
  "getForbiddenRows specDeps ownerEngine bobSession aliceRows [2] = Inr [2]"
  by (simp_all add: getForbiddenRows_def bob_user owner_row_verdict [OF bobUser_fields(1)]
        bobUser_fields(2) ownedRows_def aliceRows_def)


lemma removeMask_examples: "removeMask [1] [1, 2] = []" "removeMask [1] [2, 1] = [1]"
  by (simp_all add: removeMask_def)

lemma removeBulkRows_first:
  "removeBulkRows (BulkUpdateRecord ''T'') [1, 2] [(''x'', [CNum 11, CNum 21])] [1]
     = Some (BulkUpdateRecord ''T'' [1, 2] [(''x'', [CNum 11, CNum 21])])"
  by (simp add: removeBulkRows_def removeRowsAt_def removeMask_examples)

lemma removeBulkRows_second:
  "removeBulkRows (BulkUpdateRecord ''T'') [2, 1] [(''x'', [CNum 21, CNum 11])] [1]
     = Some (BulkUpdateRecord ''T'' [2] [(''x'', [CNum 21])])"
  by (simp add: removeBulkRows_def removeRowsAt_def removeMask_examples pullAt_def
       )

lemma makeAdditions_ownedRows:
  "makeAdditions ownedRows [2] = Some (BulkAddRecord ''T'' [1, 2] (td_columns ownedRows))"
  by (simp add: makeAdditions_def ownedRows_def asDocAction_def removeBulkRows_def
        removeRowsAt_def removeMask_examples)

lemma ownedRows_indexes:
  "map_of (rowIndexes ownedRows) 1 = Some 0" "map_of (rowIndexes ownedRows) 2 = Some (Suc 0)"
  by (simp_all add: rowIndexes_def ownedRows_def)

lemma ownedRows_verdicts:
  "read (pi_getTableAccess specDeps ownerEngine (rowInput bobUser ownedRows (Some 0)) ''T'') = Deny"
  "read (pi_getTableAccess specDeps ownerEngine (rowInput bobUser ownedRows (Some (Suc 0))) ''T'')
     = Allow"
  by (simp_all add: owner_row_verdict [OF bobUser_fields(1)] bobUser_fields(2) ownedRows_def)

lemma filterBulkRows_examples:
  "filterBulkRows specDeps ownerEngine bobUser ownedRows False ''T'' [1, 2] cols
     = Inl (Error ''Unexpected row removal'')"
  "filterBulkRows specDeps ownerEngine bobUser ownedRows False ''T'' [2] cols = Inr ([2], cols)"
  by (simp_all add: filterBulkRows_def filterRowStep_def ownedRows_indexes ownedRows_verdicts
        Let_def)

subsection \<open>Censoring twice\<close>

lemma jsSet_at: "i < length (jsSet xs i v) \<and> jsSet xs i v ! i = v"
  by (simp add: jsSet_def nth_append)

lemma jsSet_other:
  "j < length xs \<Longrightarrow> j \<noteq> i \<Longrightarrow> j < length (jsSet xs i v) \<and> jsSet xs i v ! j = xs ! j"
  by (simp add: jsSet_def nth_append)

lemma jsSet_same: "i < length xs \<Longrightarrow> xs ! i = v \<Longrightarrow> jsSet xs i v = xs"
  by (auto simp: jsSet_def)

lemma setCell_cellIs:
  assumes "setCell c v i cols = Inr cols'"
  shows "cellIs cols' c i v"
  using assms
  by (auto simp: setCell_def cellIs_def update_conv' jsSet_at split: option.splits)

lemma setCell_preserves:
  assumes "setCell c v i cols = Inr cols'" and "cellIs cols c' j v'"
    and "c' = c \<and> j = i \<longrightarrow> v' = v"
  shows "cellIs cols' c' j v'"
proof (cases "c' = c")
  case True
  show ?thesis
  proof (cases "j = i")
    case True
    with \<open>c' = c\<close> assms(3) have "v' = v" by simp
    with setCell_cellIs [OF assms(1)] True \<open>c' = c\<close> show ?thesis by simp
  next
    case False
    with assms(1,2) True show ?thesis
      by (auto simp: setCell_def cellIs_def update_conv' jsSet_other split: option.splits)
  qed
next
  case False
  with assms(1,2) show ?thesis
    by (auto simp: setCell_def cellIs_def update_conv' split: option.splits)
qed

lemma setCell_done:
  assumes "cellIs cols c i v"
  shows "setCell c v i cols = Inr cols"
  using assms
  by (auto simp: setCell_def cellIs_def jsSet_same update_triv split: option.splits)

lemma applyOp_Nil [simp]: "applyOp [] i cols = Inr cols"
  by (simp add: applyOp_def)

lemma applyOp_Cons [simp]:
  "applyOp (w # op) i cols = rbind (setCell (fst w) (snd w) i cols) (applyOp op i)"
  by (simp add: applyOp_def rbind_def split: sum.splits)

lemma applyOp_preserves:
  assumes "applyOp op i cols = Inr cols'" and "cellIs cols c j v"
    and "j = i \<longrightarrow> (\<forall>w \<in> set op. fst w = c \<longrightarrow> snd w = v)"
  shows "cellIs cols' c j v"
  using assms
proof (induction op arbitrary: cols)
  case Nil
  then show ?case by simp
next
  case (Cons w op)
  from Cons.prems(1) obtain cols1 where s: "setCell (fst w) (snd w) i cols = Inr cols1"
    and r: "applyOp op i cols1 = Inr cols'"
    by (auto simp: rbind_eq_Inr)
  from Cons.prems(3) have "c = fst w \<and> j = i \<longrightarrow> v = snd w" by auto
  with setCell_preserves [OF s Cons.prems(2)] have "cellIs cols1 c j v" by simp
  with Cons.IH [OF r] Cons.prems(3) show ?case by simp
qed

lemma functionalOp_Cons:
  assumes "functionalOp (x # op)"
  shows "functionalOp op" and "\<And>w'. w' \<in> set op \<Longrightarrow> fst w' = fst x \<Longrightarrow> snd w' = snd x"
proof -
  from assms have a: "\<And>w w'. w \<in> set (x # op) \<Longrightarrow> w' \<in> set (x # op) \<Longrightarrow> fst w = fst w'
                        \<Longrightarrow> snd w = snd w'"
    unfolding functionalOp_def by blast
  show "functionalOp op"
    unfolding functionalOp_def
  proof (intro ballI impI)
    fix w w' assume "w \<in> set op" "w' \<in> set op" "fst w = fst w'"
    then show "snd w = snd w'" using a [of w w'] by simp
  qed
  show "snd w' = snd x" if "w' \<in> set op" "fst w' = fst x" for w'
    using a [of w' x] that by simp
qed

lemma applyOp_establishes:
  assumes "functionalOp op" and "applyOp op i cols = Inr cols'" and "w \<in> set op"
  shows "cellIs cols' (fst w) i (snd w)"
  using assms
proof (induction op arbitrary: cols)
  case Nil
  then show ?case by simp
next
  case (Cons x op)
  from Cons.prems(2) obtain cols1 where s: "setCell (fst x) (snd x) i cols = Inr cols1"
    and r: "applyOp op i cols1 = Inr cols'"
    by (auto simp: rbind_eq_Inr)
  note f = functionalOp_Cons [OF Cons.prems(1)]
  show ?case
  proof (cases "w = x")
    case True
    have "cellIs cols' (fst x) i (snd x)"
    proof (rule applyOp_preserves [OF r setCell_cellIs [OF s]])
      show "i = i \<longrightarrow> (\<forall>w \<in> set op. fst w = fst x \<longrightarrow> snd w = snd x)"
        using f(2) by blast
    qed
    with True show ?thesis by simp
  next
    case False
    with Cons.prems(3) have "w \<in> set op" by simp
    from Cons.IH [OF f(1) r this] show ?thesis .
  qed
qed

lemma applyOp_done:
  assumes "\<forall>w \<in> set op. cellIs cols (fst w) i (snd w)"
  shows "applyOp op i cols = Inr cols"
  using assms by (induction op) (simp_all add: setCell_done)

lemma censorRows_Nil [simp]: "censorRows rowIds ids op cols [] = Inr cols"
  by (simp add: censorRows_def)

lemma censorRows_Cons [simp]:
  "censorRows rowIds ids op cols (k # idxs) =
     rbind (if rowIds ! k \<in> set ids then applyOp op k cols else Inr cols)
       (\<lambda>cols1. censorRows rowIds ids op cols1 idxs)"
  by (simp add: censorRows_def rbind_def)

lemma censorRows_preserves:
  assumes "censorRows rowIds ids op cols idxs = Inr cols'" and "cellIs cols c j v"
    and "\<forall>w \<in> set op. fst w = c \<longrightarrow> snd w = v"
  shows "cellIs cols' c j v"
  using assms
proof (induction idxs arbitrary: cols)
  case Nil
  then show ?case by simp
next
  case (Cons k idxs)
  from Cons.prems(1) obtain cols1 where
    s: "(if rowIds ! k \<in> set ids then applyOp op k cols else Inr cols) = Inr cols1"
    and r: "censorRows rowIds ids op cols1 idxs = Inr cols'"
    by (auto simp: rbind_eq_Inr)
  have "cellIs cols1 c j v"
  proof (cases "rowIds ! k \<in> set ids")
    case True
    with s have "applyOp op k cols = Inr cols1" by simp
    from applyOp_preserves [OF this Cons.prems(2)] Cons.prems(3) show ?thesis by simp
  next
    case False
    with s Cons.prems(2) show ?thesis by simp
  qed
  from Cons.IH [OF r this Cons.prems(3)] show ?case .
qed

lemma censorRows_establishes:
  assumes "functionalOp op" and "censorRows rowIds ids op cols idxs = Inr cols'"
    and "k \<in> set idxs" and "rowIds ! k \<in> set ids" and "w \<in> set op"
  shows "cellIs cols' (fst w) k (snd w)"
  using assms(2,3)
proof (induction idxs arbitrary: cols)
  case Nil
  then show ?case by simp
next
  case (Cons x idxs)
  from Cons.prems(1) obtain cols1 where
    s: "(if rowIds ! x \<in> set ids then applyOp op x cols else Inr cols) = Inr cols1"
    and r: "censorRows rowIds ids op cols1 idxs = Inr cols'"
    by (auto simp: rbind_eq_Inr)
  from assms(1,5) have same: "\<forall>w' \<in> set op. fst w' = fst w \<longrightarrow> snd w' = snd w"
    unfolding functionalOp_def by blast
  show ?case
  proof (cases "k = x")
    case True
    with s assms(4) have "applyOp op k cols = Inr cols1" by simp
    from applyOp_establishes [OF assms(1) this assms(5)]
    have "cellIs cols1 (fst w) k (snd w)" .
    from censorRows_preserves [OF r this same] show ?thesis .
  next
    case False
    with Cons.prems(2) have "k \<in> set idxs" by simp
    from Cons.IH [OF r this] show ?thesis .
  qed
qed

lemma censorRows_done:
  assumes "\<forall>k \<in> set idxs. rowIds ! k \<in> set ids \<longrightarrow> (\<forall>w \<in> set op. cellIs cols (fst w) k (snd w))"
  shows "censorRows rowIds ids op cols idxs = Inr cols"
  using assms by (induction idxs) (simp_all add: applyOp_done)

lemma censorRows_twice:
  assumes "functionalOp op" and "censorRows rowIds ids op cols idxs = Inr cols'"
  shows "censorRows rowIds ids op cols' idxs = Inr cols'"
  by (rule censorRows_done) (auto intro: censorRows_establishes [OF assms])

lemma censor_eq:
  "censor tables name ids op =
     (case map_of tables name of
        None \<Rightarrow> Inl TypeError
      | Some table \<Rightarrow>
          rbind (censorRows (td_rowIds table) ids op (td_columns table)
                   [0 ..< length (td_rowIds table)])
            (\<lambda>cols'. Inr (AList.update name (table \<lparr> td_columns := cols' \<rparr>) tables)))"
  by (simp add: censor_def censorRows_def split: option.splits)

text \<open>A table of the map is settled when censoring it again changes nothing.\<close>

lemma censor_settles:
  assumes "functionalOp op" and "censor tables name ids op = Inr tables'"
  shows "censor tables' name ids op = Inr tables'"
    and "m \<noteq> name \<Longrightarrow> map_of tables' m = map_of tables m"
proof -
  from assms(2) obtain table cols' where t: "map_of tables name = Some table"
    and c: "censorRows (td_rowIds table) ids op (td_columns table)
              [0 ..< length (td_rowIds table)] = Inr cols'"
    and r: "tables' = AList.update name (table \<lparr> td_columns := cols' \<rparr>) tables"
    by (auto simp: censor_eq rbind_eq_Inr split: option.splits)
  from r have t': "map_of tables' name = Some (table \<lparr> td_columns := cols' \<rparr>)"
    by (simp add: update_conv')
  from censorRows_twice [OF assms(1) c] t' show "censor tables' name ids op = Inr tables'"
    by (simp add: censor_eq update_triv)
  show "map_of tables' m = map_of tables m" if "m \<noteq> name"
    using r that by (simp add: update_conv')
qed

lemma censor_stays_settled:
  assumes "censor tables name ids op = Inr tables" and "map_of tables' name = map_of tables name"
  shows "censor tables' name ids op = Inr tables'"
proof -
  from assms(1) obtain table cols' where t: "map_of tables name = Some table"
    and c: "censorRows (td_rowIds table) ids op (td_columns table)
              [0 ..< length (td_rowIds table)] = Inr cols'"
    and r: "tables = AList.update name (table \<lparr> td_columns := cols' \<rparr>) tables"
    by (auto simp: censor_eq rbind_eq_Inr split: option.splits)
  from r have "map_of tables name = Some (table \<lparr> td_columns := cols' \<rparr>)"
    by (metis update_conv' fun_upd_same)
  with t have "table \<lparr> td_columns := cols' \<rparr> = table" by simp
  with assms(2) t c show ?thesis
    by (simp add: censor_eq update_triv)
qed

lemma censorAll_twice:
  assumes "censorAll c tables = Inr tables'"
  shows "censorAll c tables' = Inr tables'"
proof -
  let ?op1 = "[(''tableId'', CStr [])]"
  let ?op2 = "[(''name'', CStr [])]"
  let ?op3 = "[(''title'', CStr []), (''tableRef'', CNum 0)]"
  let ?op4 = "[(''colId'', CStr []), (''label'', CStr []), (''formula'', CStr []),
               (''widgetOptions'', CStr []), (''type'', CStr ''Any''), (''parentId'', CNum 0)]"
  let ?op5 = "[(''filter'', CStr []), (''widgetOptions'', CStr []), (''parentId'', CNum 0)]"
  have f: "functionalOp ?op1" "functionalOp ?op2" "functionalOp ?op3" "functionalOp ?op4"
    "functionalOp ?op5"
    by (simp_all add: functionalOp_def)
  from assms obtain t1 t2 t3 t4 where
    s1: "censor tables ''_grist_Tables'' (censoredTables c) ?op1 = Inr t1"
    and s2: "censor t1 ''_grist_Views'' (censoredViews c) ?op2 = Inr t2"
    and s3: "censor t2 ''_grist_Views_section'' (censoredSections c) ?op3 = Inr t3"
    and s4: "censor t3 ''_grist_Tables_column'' (censoredColumns c) ?op4 = Inr t4"
    and s5: "censor t4 ''_grist_Views_section_field'' (censoredFields c) ?op5 = Inr tables'"
    by (auto simp: censorAll_def rbind_eq_Inr)
  note k1 = censor_settles [OF f(1) s1]
  note k2 = censor_settles [OF f(2) s2]
  note k3 = censor_settles [OF f(3) s3]
  note k4 = censor_settles [OF f(4) s4]
  note k5 = censor_settles [OF f(5) s5]
  have e1: "censor tables' ''_grist_Tables'' (censoredTables c) ?op1 = Inr tables'"
    by (rule censor_stays_settled [OF k1(1)]) (simp add: k2(2) k3(2) k4(2) k5(2))
  have e2: "censor tables' ''_grist_Views'' (censoredViews c) ?op2 = Inr tables'"
    by (rule censor_stays_settled [OF k2(1)]) (simp add: k3(2) k4(2) k5(2))
  have e3: "censor tables' ''_grist_Views_section'' (censoredSections c) ?op3 = Inr tables'"
    by (rule censor_stays_settled [OF k3(1)]) (simp add: k4(2) k5(2))
  have e4: "censor tables' ''_grist_Tables_column'' (censoredColumns c) ?op4 = Inr tables'"
    by (rule censor_stays_settled [OF k4(1)]) (simp add: k5(2))
  from e1 e2 e3 e4 k5(1) show ?thesis by (simp add: censorAll_def)
qed

lemma secretTableEngine_eq:
  "secretTableEngine =
     freshEngine \<lparr> haveRules := True,
                    tableRuleSets := [(''Secret'', hd (ruleSets secretTableRules))],
                    tableIds := [''Secret''],
                    docData := secretDocData \<rparr>"
proof -
  have fr: "foldResult (updateStep specDeps)
              \<lparr> ix_colRuleSets = [], ix_tableColMap = [], ix_tableRuleSets = [],
                ix_defaultRuleSet = DEFAULT_RULE_SET specDeps \<rparr> (ruleSets secretTableRules)
            = Inr \<lparr> ix_colRuleSets = [], ix_tableColMap = [],
                    ix_tableRuleSets = [(''Secret'', hd (ruleSets secretTableRules))],
                    ix_defaultRuleSet = DEFAULT_RULE_SET specDeps \<rparr>"
    by (simp add: secretTableRules_def updateStep_def)
  have ua: "userAttributes secretTableRules = []" by (simp add: secretTableRules_def)
  have len: "0 < length (ruleSets secretTableRules)" by (simp add: secretTableRules_def)
  show ?thesis
    unfolding secretTableEngine_def update_no_attributes [OF ua fr]
    using len by (simp add: freshEngine_def newGranularAccess_def)
qed

lemma secretTableEngine_fields:
  "getAllColumnRuleSets secretTableEngine t = []"
  "getTableDefaultRuleSet secretTableEngine ''Secret'' = Some (hd (ruleSets secretTableRules))"
  "getDocDefaultRuleSet secretTableEngine = DEFAULT_RULE_SET specDeps"
  "getAllTableIds secretTableEngine = [''Secret'']"
  "userAttributeRules secretTableEngine = []"
  "docData secretTableEngine = secretDocData"
  by (simp_all add: secretTableEngine_eq freshEngine_fields getAllColumnRuleSets_def
        getTableDefaultRuleSet_def getDocDefaultRuleSet_def getAllTableIds_def)

lemma secretTable_session:
  obtains u where "getUser specDeps secretTableEngine (sessionOf r) = Inr u"
    and "map_of u ''Access'' = Some (Cell (roleCell r))"
  by (simp add: getUser_plain secretTableEngine_fields sessionOf_def)

lemma secretTable_verdict:
  "pi_getTableAccess specDeps secretTableEngine input ''Secret'' = allBits Deny"
proof -
  have "processRule specDeps input (hd (ruleSets secretTableRules)) (Some d) = allBits Deny" for d
    by (simp add: processRule_def evaluateRule_def secretTableRules_def spec_merge spec_toMixed
          allBits_eq emptyPermissionSet_eq)
  then show ?thesis
    by (simp add: pi_getTableAccess_def secretTableEngine_fields getTableDefaultAccess_def
          mergePermissions_def tableBits_def allBits_eq)
qed

lemma secretTable_censoredIds:
  "computeCensoredIds specDeps secretTableEngine input =
     \<lparr> censoredTables = [1], censoredViews = [5], censoredSections = [7],
       censoredColumns = [3], censoredFields = [9] \<rparr>"
proof -
  have tc: "foldl (censorTableStep specDeps secretTableEngine input) ([], [])
              (getAllTableIds secretTableEngine) = ([1], [])"
    by (simp add: secretTableEngine_fields censorTableStep_def secretTable_verdict allBits_eq
          lookupTableRef_def secretDocData_def truthyRef_def setAdd_def)
  have recs:
    "recordsOf secretTableEngine ''_grist_Views_section''
       = [(7, [(''tableRef'', CNum 1), (''parentId'', CNum 5)])]"
    "recordsOf secretTableEngine ''_grist_Tables_column''
       = [(3, [(''parentId'', CNum 1), (''colId'', CStr ''salary'')]),
          (4, [(''parentId'', CNum 2), (''colId'', CStr ''name'')])]"
    "recordsOf secretTableEngine ''_grist_Views_section_field''
       = [(9, [(''parentId'', CNum 7), (''colRef'', CNum 3)])]"
    by (simp_all add: recordsOf_def secretTableEngine_fields secretDocData_def)
  show ?thesis
    by (simp add: computeCensoredIds_def tc recs sectionStep_def hasCell_def setAdd_def Let_def)
qed

lemma secretTable_censorAll:
  "censorAll \<lparr> censoredTables = [1], censoredViews = [5], censoredSections = [7],
               censoredColumns = [3], censoredFields = [9] \<rparr> secretMetaTables
     = Inr censoredMetaTables"
  by (simp add: censorAll_def censor_eq secretMetaTables_def censoredMetaTables_def
        setCell_def jsSet_def)

section \<open>The claims\<close>

text \<open>
  C1 fails on the code. Bob reads the rows he owns. For a bulk update of rows 1 and 2,
  where row 1 is forbidden to him before and after, \<^verbatim>\<open>_removeRows\<close> leaves row 1 in the
  action, its index being 0, and the planner throws; the same update with the rows in
  the other order is pruned to row 2. For an update that makes row 2 visible, over a
  snapshot whose first row is row 1, the synthetic add carries row 1 as well, and the
  planner throws.
\<close>

theorem pruneRows_first_row_not_dropped:
  "getForbiddenRows specDeps ownerEngine bobSession ownedRows [1, 2] = Inr [1]
   \<and> removeRows (BulkUpdateRecord ''T'' [1, 2] [(''x'', [CNum 11, CNum 21])]) [1]
       = Some (BulkUpdateRecord ''T'' [1, 2] [(''x'', [CNum 11, CNum 21])])
   \<and> pruneRows specDeps ownerEngine bobSession
        (BulkUpdateRecord ''T'' [1, 2] [(''x'', [CNum 11, CNum 21])]) 0
       = Inl (Error ''Unexpected row removal'')
   \<and> pruneRows specDeps ownerEngine bobSession
        (BulkUpdateRecord ''T'' [2, 1] [(''x'', [CNum 21, CNum 11])]) 0
       = Inr [BulkUpdateRecord ''T'' [2] [(''x'', [CNum 21])]]
   \<and> makeAdditions ownedRows [2] = Some (BulkAddRecord ''T'' [1, 2] (td_columns ownedRows))
   \<and> pruneRows specDeps ownerEngine bobSession
        (UpdateRecord ''T'' 2 [(''owner'', CStr ''bob'')]) 1
       = Inl (Error ''Unexpected row removal'')"
proof -
  have rm: "removeRows (BulkUpdateRecord ''T'' [1, 2] [(''x'', [CNum 11, CNum 21])]) [1]
              = Some (BulkUpdateRecord ''T'' [1, 2] [(''x'', [CNum 11, CNum 21])])"
    by (simp add: removeBulkRows_first)
  have plan1: "planRows (BulkUpdateRecord ''T'' [1, 2] [(''x'', [CNum 11, CNum 21])]) [1, 2] [1] [1]
                 = \<lparr> removals = [1], forceAdds = [], forceRemoves = [] \<rparr>"
    by (simp add: planRows_def planStep_def setAdd_def)
  have rev1: "revisedDocActions (BulkUpdateRecord ''T'' [1, 2] [(''x'', [CNum 11, CNum 21])])
                ownedRows \<lparr> removals = [1], forceAdds = [], forceRemoves = [] \<rparr>
                = [BulkUpdateRecord ''T'' [1, 2] [(''x'', [CNum 11, CNum 21])]]"
    by (simp add: revisedDocActions_def makeAdditions_def makeRemovals_def removeBulkRows_first
          List.map_filter_simps)
  have p1: "pruneRows specDeps ownerEngine bobSession
              (BulkUpdateRecord ''T'' [1, 2] [(''x'', [CNum 11, CNum 21])]) 0
              = Inl (Error ''Unexpected row removal'')"
    by (simp add: pruneRows_def ownerEngine_fields bob_forbidden plan1 rev1
          filterRowsAndCells_def bob_user filterBulkRows_examples)
  have plan2: "planRows (BulkUpdateRecord ''T'' [2, 1] [(''x'', [CNum 21, CNum 11])]) [2, 1] [1] [1]
                 = \<lparr> removals = [1], forceAdds = [], forceRemoves = [] \<rparr>"
    by (simp add: planRows_def planStep_def setAdd_def)
  have rev2: "revisedDocActions (BulkUpdateRecord ''T'' [2, 1] [(''x'', [CNum 21, CNum 11])])
                ownedRows \<lparr> removals = [1], forceAdds = [], forceRemoves = [] \<rparr>
                = [BulkUpdateRecord ''T'' [2] [(''x'', [CNum 21])]]"
    by (simp add: revisedDocActions_def makeAdditions_def makeRemovals_def removeBulkRows_second
          List.map_filter_simps)
  have p2: "pruneRows specDeps ownerEngine bobSession
              (BulkUpdateRecord ''T'' [2, 1] [(''x'', [CNum 21, CNum 11])]) 0
              = Inr [BulkUpdateRecord ''T'' [2] [(''x'', [CNum 21])]]"
    by (simp add: pruneRows_def ownerEngine_fields bob_forbidden plan2 rev2
          filterRowsAndCells_def bob_user filterBulkRows_examples)
  have plan3: "planRows (UpdateRecord ''T'' 2 [(''owner'', CStr ''bob'')]) [2] [2] []
                 = \<lparr> removals = [2], forceAdds = [2], forceRemoves = [] \<rparr>"
    by (simp add: planRows_def planStep_def setAdd_def)
  have rev3: "revisedDocActions (UpdateRecord ''T'' 2 [(''owner'', CStr ''bob'')])
                ownedRows \<lparr> removals = [2], forceAdds = [2], forceRemoves = [] \<rparr>
                = [BulkAddRecord ''T'' [1, 2] (td_columns ownedRows)]"
    by (simp add: revisedDocActions_def makeAdditions_ownedRows makeRemovals_def
          List.map_filter_simps)
  have p3: "pruneRows specDeps ownerEngine bobSession
              (UpdateRecord ''T'' 2 [(''owner'', CStr ''bob'')]) 1
              = Inl (Error ''Unexpected row removal'')"
    by (simp add: pruneRows_def ownerEngine_fields bob_forbidden plan3 rev3
          filterRowsAndCells_def bob_user filterBulkRows_examples)
  from rm p1 p2 p3 show ?thesis by (simp add: bob_forbidden makeAdditions_ownedRows)
qed

text \<open>
  C2. For an engine that can exist and a session for which \<^verbatim>\<open>canReadEverything\<close> is true,
  \<^verbatim>\<open>filterOutgoingDocActions\<close> returns the bundle unchanged and \<^verbatim>\<open>filterMetaTables\<close>
  returns the metadata tables unchanged.
\<close>

theorem canReadEverything_passthrough:
  assumes "reachable D ga" and "canReadEverything D ga s = Inr True"
  shows "filterOutgoingDocActions D ga s B = Inr B \<and> filterMetaTables D ga s M = Inr M"
proof -
  from assms(1) have inv: "storeInv D ga" by (rule reachable_storeInv)
  from assms(2) obtain permInfo where acc: "getAccess D ga s = Inr permInfo"
    and full: "read (pi_getFullAccess D ga permInfo) = Allow"
    by (auto simp: canReadEverything_def rbind_eq_Inr)
  have "pruneOutgoingDocAction D ga s a i = Inr [a]" for a i
    using acc tableAccess_allow [OF inv full] by (simp add: pruneOutgoingDocAction_def)
  then have "mapResult (\<lambda>p. pruneOutgoingDocAction D ga s (snd p) (fst p)) (enumerate 0 B)
               = Inr (map (\<lambda>a. [a]) B)"
    by (intro mapResult_singletons) simp
  then have "filterOutgoingDocActions D ga s B = Inr B"
    by (simp add: filterOutgoingDocActions_def concat_singletons)
  moreover from assms(2) have "filterMetaTables D ga s M = Inr M"
    by (simp add: filterMetaTables_def)
  ultimately show ?thesis by simp
qed

theorem canReadEverything_passthrough_witness:
  "filterOutgoingDocActions specDeps secretColumnEngine (sessionOf Owners)
     [BulkAddRecord ''T'' [1, 2] [(''pub'', [CStr ''a'', CStr ''b'']),
                                  (''sec'', [CStr ''x'', CStr ''y''])],
      AddColumn ''T'' ''x'' []]
     = Inr [BulkAddRecord ''T'' [1, 2] [(''pub'', [CStr ''a'', CStr ''b'']),
                                        (''sec'', [CStr ''x'', CStr ''y''])],
            AddColumn ''T'' ''x'' []]
   \<and> filterMetaTables specDeps secretColumnEngine (sessionOf Owners) secretMetaTables
       = Inr secretMetaTables"
proof -
  have "canReadEverything specDeps secretColumnEngine (sessionOf Owners) = Inr True"
    by (simp add: secretColumn_canReadEverything)
  with reachable_secretColumnEngine show ?thesis
    by (rule canReadEverything_passthrough)
qed

text \<open>
  C3, as the claim states it, fails: on a table whose read verdict is \<^verbatim>\<open>mixedColumns\<close> for
  a viewer, an \<^verbatim>\<open>AddColumn\<close> of a readable column is not emitted; the pruner raises
  \<^verbatim>\<open>NEED_RELOAD\<close>.
\<close>

theorem pruneOutgoingDocAction_fast_paths_counterexample:
  "getTableAccess specDeps secretColumnEngine (sessionOf Viewers) ''T''
     = Inr ((allBits Deny) \<lparr> read := MixedColumns \<rparr>)
   \<and> pruneOutgoingDocAction specDeps secretColumnEngine (sessionOf Viewers)
        (AddColumn ''T'' ''x'' []) 0
       = Inl (ErrorWithCode ''NEED_RELOAD'' ''document needs reload'')"
proof -
  obtain u where u: "getUser specDeps secretColumnEngine (sessionOf Viewers) = Inr u"
    and a: "map_of u ''Access'' = Some (Cell (roleCell Viewers))"
    by (rule secretColumn_session)
  from spec_defaultRule [OF a]
  have x: "read (pi_getColumnAccess specDeps secretColumnEngine \<lparr> in_user = u, in_rec = None \<rparr>
                   ''T'' ''x'') = Allow"
    by (simp add: pi_getColumnAccess_def secretColumnEngine_fields getTableDefaultAccess_def
          getDocDefaultAccess_def allBits_eq)
  have "pruneOutgoingDocAction specDeps secretColumnEngine (sessionOf Viewers)
          (AddColumn ''T'' ''x'' []) 0 = Inl (ErrorWithCode ''NEED_RELOAD'' ''document needs reload'')"
    using u x
    by (simp add: pruneOutgoingDocAction_def getAccess_def secretColumn_verdicts(2) [OF a]
          allBits_eq columnSchemaAction_def needReload_def)
  then show ?thesis by (simp add: secretColumn_tableAccess)
qed

text \<open>
  C3, amended. If the table read verdict is \<^verbatim>\<open>deny\<close> the pruner emits nothing; if it is
  \<^verbatim>\<open>allow\<close> it emits the action unchanged as the only output; if it is \<^verbatim>\<open>mixedColumns\<close>:
  for a column-schema action (\<^verbatim>\<open>AddColumn\<close>, \<^verbatim>\<open>RemoveColumn\<close>, \<^verbatim>\<open>RenameColumn\<close>,
  \<^verbatim>\<open>ModifyColumn\<close>) it emits nothing when the read verdict of the column is \<^verbatim>\<open>deny\<close> and
  raises \<^verbatim>\<open>NEED_RELOAD\<close> otherwise; for a record action that carries column values it
  emits the action with every column whose read verdict is \<^verbatim>\<open>deny\<close> stripped, and nothing
  when no column remains; a remove-shaped action and a table-schema action are emitted
  unchanged.
\<close>

theorem pruneOutgoingDocAction_fast_paths:
  assumes "getAccess D ga s = Inr permInfo"
  shows "(read (pi_getTableAccess D ga permInfo (getTableId a)) = Deny \<longrightarrow>
            pruneOutgoingDocAction D ga s a idx = Inr [])
       \<and> (read (pi_getTableAccess D ga permInfo (getTableId a)) = Allow \<longrightarrow>
            pruneOutgoingDocAction D ga s a idx = Inr [a])
       \<and> (read (pi_getTableAccess D ga permInfo (getTableId a)) = MixedColumns \<longrightarrow>
            pruneOutgoingDocAction D ga s a idx =
              (case schemaColumn a of
                 Some c \<Rightarrow>
                   if read (pi_getColumnAccess D ga permInfo (getTableId a) c) = Deny
                   then Inr [] else Inl needReload
               | None \<Rightarrow>
                   (case actionColumnIds a of
                      None \<Rightarrow> Inr [a]
                    | Some cs \<Rightarrow>
                        if list_all (\<lambda>c. read (pi_getColumnAccess D ga permInfo (getTableId a) c)
                                           = Deny) cs
                        then Inr []
                        else Inr [keepColumns
                                    (\<lambda>c. read (pi_getColumnAccess D ga permInfo (getTableId a) c)
                                          \<noteq> Deny) a])))"
  using assms
  by (simp add: pruneOutgoingDocAction_def pruneColumns_shape columnSchemaAction_def
        colReadable_fun split: option.splits)

theorem pruneOutgoingDocAction_fast_paths_witness:
  "pruneOutgoingDocAction specDeps secretColumnEngine (sessionOf NoAccess)
     (UpdateRecord ''T'' 1 [(''pub'', CStr ''a'')]) 0 = Inr []
   \<and> pruneOutgoingDocAction specDeps secretColumnEngine (sessionOf Owners)
       (UpdateRecord ''T'' 1 [(''sec'', CStr ''x'')]) 0
       = Inr [UpdateRecord ''T'' 1 [(''sec'', CStr ''x'')]]
   \<and> pruneOutgoingDocAction specDeps secretColumnEngine (sessionOf Viewers)
       (BulkAddRecord ''T'' [1, 2] [(''pub'', [CStr ''a'', CStr ''b'']),
                                    (''sec'', [CStr ''x'', CStr ''y''])]) 0
       = Inr [BulkAddRecord ''T'' [1, 2] [(''pub'', [CStr ''a'', CStr ''b''])]]
   \<and> pruneOutgoingDocAction specDeps secretColumnEngine (sessionOf Viewers)
       (UpdateRecord ''T'' 1 [(''sec'', CStr ''x'')]) 0 = Inr []
   \<and> pruneOutgoingDocAction specDeps secretColumnEngine (sessionOf Viewers)
       (RemoveRecord ''T'' 1) 0 = Inr [RemoveRecord ''T'' 1]
   \<and> pruneOutgoingDocAction specDeps secretColumnEngine (sessionOf Viewers)
       (RemoveColumn ''T'' ''sec'') 0 = Inr []"
proof -
  obtain un where "getUser specDeps secretColumnEngine (sessionOf NoAccess) = Inr un"
    and an: "map_of un ''Access'' = Some (Cell (roleCell NoAccess))"
    by (rule secretColumn_session)
  then have un: "getAccess specDeps secretColumnEngine (sessionOf NoAccess)
                   = Inr \<lparr> in_user = un, in_rec = None \<rparr>"
    by (simp add: getAccess_def)
  obtain uo where "getUser specDeps secretColumnEngine (sessionOf Owners) = Inr uo"
    and ao: "map_of uo ''Access'' = Some (Cell (roleCell Owners))"
    by (rule secretColumn_session)
  then have uo: "getAccess specDeps secretColumnEngine (sessionOf Owners)
                   = Inr \<lparr> in_user = uo, in_rec = None \<rparr>"
    by (simp add: getAccess_def)
  obtain uv where "getUser specDeps secretColumnEngine (sessionOf Viewers) = Inr uv"
    and av: "map_of uv ''Access'' = Some (Cell (roleCell Viewers))"
    by (rule secretColumn_session)
  then have uv: "getAccess specDeps secretColumnEngine (sessionOf Viewers)
                   = Inr \<lparr> in_user = uv, in_rec = None \<rparr>"
    by (simp add: getAccess_def)
  from spec_defaultRule [OF av]
  have pub: "pi_getColumnAccess specDeps secretColumnEngine \<lparr> in_user = uv, in_rec = None \<rparr>
               ''T'' ''pub'' = (allBits Deny) \<lparr> read := Allow \<rparr>"
    by (simp add: pi_getColumnAccess_def secretColumnEngine_fields getTableDefaultAccess_def
          getDocDefaultAccess_def)
  note vt = secretColumn_verdicts(2) [OF av]
  note vs = secretColumn_verdicts(1) [OF av]
  have c1: "pruneOutgoingDocAction specDeps secretColumnEngine (sessionOf NoAccess)
              (UpdateRecord ''T'' 1 [(''pub'', CStr ''a'')]) 0 = Inr []"
    using pruneOutgoingDocAction_fast_paths [OF un, of "UpdateRecord ''T'' 1 [(''pub'', CStr ''a'')]" 0]
    by (simp add: secretColumn_verdicts(2) [OF an] allBits_eq)
  have c2: "pruneOutgoingDocAction specDeps secretColumnEngine (sessionOf Owners)
              (UpdateRecord ''T'' 1 [(''sec'', CStr ''x'')]) 0
              = Inr [UpdateRecord ''T'' 1 [(''sec'', CStr ''x'')]]"
    using pruneOutgoingDocAction_fast_paths [OF uo, of "UpdateRecord ''T'' 1 [(''sec'', CStr ''x'')]" 0]
    by (simp add: secretColumn_verdicts(2) [OF ao] allBits_eq)
  have c3: "pruneOutgoingDocAction specDeps secretColumnEngine (sessionOf Viewers)
              (BulkAddRecord ''T'' [1, 2] [(''pub'', [CStr ''a'', CStr ''b'']),
                                           (''sec'', [CStr ''x'', CStr ''y''])]) 0
              = Inr [BulkAddRecord ''T'' [1, 2] [(''pub'', [CStr ''a'', CStr ''b''])]]"
    using pruneOutgoingDocAction_fast_paths [OF uv, of "BulkAddRecord ''T'' [1, 2]
         [(''pub'', [CStr ''a'', CStr ''b'']), (''sec'', [CStr ''x'', CStr ''y''])]" 0]
    by (simp add: vt vs pub allBits_eq)
  have c4: "pruneOutgoingDocAction specDeps secretColumnEngine (sessionOf Viewers)
              (UpdateRecord ''T'' 1 [(''sec'', CStr ''x'')]) 0 = Inr []"
    using pruneOutgoingDocAction_fast_paths [OF uv, of "UpdateRecord ''T'' 1 [(''sec'', CStr ''x'')]" 0]
    by (simp add: vt vs allBits_eq)
  have c5: "pruneOutgoingDocAction specDeps secretColumnEngine (sessionOf Viewers)
              (RemoveRecord ''T'' 1) 0 = Inr [RemoveRecord ''T'' 1]"
    using pruneOutgoingDocAction_fast_paths [OF uv, of "RemoveRecord ''T'' 1" 0]
    by (simp add: vt allBits_eq)
  have c6: "pruneOutgoingDocAction specDeps secretColumnEngine (sessionOf Viewers)
              (RemoveColumn ''T'' ''sec'') 0 = Inr []"
    using pruneOutgoingDocAction_fast_paths [OF uv, of "RemoveColumn ''T'' ''sec''" 0]
    by (simp add: vt vs allBits_eq)
  from c1 c2 c3 c4 c5 c6 show ?thesis by simp
qed

text \<open>
  C4. \<^verbatim>\<open>evaluateRule\<close> returns a permission set for every rule set and input: the merge,
  in the order of the body, of what each rule contributes, then of the default permissions,
  along with the lines it logs. A rule whose predicate raises the needs-row signal
  contributes its delta weakened, in which no bit is \<^verbatim>\<open>allow\<close> or \<^verbatim>\<open>deny\<close> (they are
  downgraded to \<^verbatim>\<open>allowSome\<close> and \<^verbatim>\<open>denySome\<close>), and logs nothing; a rule whose predicate
  raises another error contributes nothing, as a rule that does not match, and logs one
  line.
\<close>

theorem evaluateRule_error_contract:
  "evaluateRule D rs input =
     (mergePartialPermissions D
        (foldl (\<lambda>p r. case ruleDelta r input of None \<Rightarrow> p
                       | Some d \<Rightarrow> mergePartialPermissions D p d)
           emptyPermissionSet (body rs))
        (defaultPermissions rs),
      List.map_filter (\<lambda>r. ruleWarning rs r input) (body rs))
   \<and> (callMatchFunc r input = Inl e \<and> thrown_code e = Some ''NEED_ROW_DATA'' \<longrightarrow>
        ruleDelta r input = Some (makePartialPermissions (permissions r))
        \<and> ruleWarning rs r input = None)
   \<and> (callMatchFunc r input = Inl e \<and> thrown_code e \<noteq> Some ''NEED_ROW_DATA'' \<longrightarrow>
        ruleDelta r input = None
        \<and> ruleWarning rs r input = Some (warnMessage (rs_tableId rs) (thrown_message e)))
   \<and> (\<forall>sel \<in> set bitSelectors.
         sel (makePartialPermissions p) = weaken (sel p)
         \<and> sel (makePartialPermissions p) \<noteq> Allow \<and> sel (makePartialPermissions p) \<noteq> Deny)"
proof -
  have "evaluateRule D rs input =
     (mergePartialPermissions D
        (foldl (\<lambda>p r. case ruleDelta r input of None \<Rightarrow> p
                       | Some d \<Rightarrow> mergePartialPermissions D p d)
           emptyPermissionSet (body rs))
        (defaultPermissions rs),
      List.map_filter (\<lambda>r. ruleWarning rs r input) (body rs))"
    by (simp add: evaluateRule_def foldl_ruleStep)
  moreover have "\<forall>sel \<in> set bitSelectors.
         sel (makePartialPermissions p) = weaken (sel p)
         \<and> sel (makePartialPermissions p) \<noteq> Allow \<and> sel (makePartialPermissions p) \<noteq> Deny"
    by (simp add: makePartialPermissions_bits weaken_not_final)
  ultimately show ?thesis
    by (simp add: ruleDelta_def ruleWarning_def)
qed

theorem evaluateRule_error_contract_witness:
  "evaluateRule specDeps faultyRuleSet \<lparr> in_user = [], in_rec = None \<rparr> =
     ((allBits Unset) \<lparr> read := AllowSome, perm_update := DenySome \<rparr>,
      [''ACLRule for T failed: boom'', ''ACLRule for T failed: rule.matchFunc is not a function''])
   \<and> read (makePartialPermissions ((allBits Unset) \<lparr> read := Allow, perm_update := Deny \<rparr>))
       = AllowSome"
proof -
  let ?input = "\<lparr> in_user = [], in_rec = None \<rparr>"
  let ?r1 = needsRowRule
  let ?r2 = throwingRule
  let ?r3 = noPredicateRule
  have b: "body faultyRuleSet = [?r1, ?r2, ?r3]" by (simp add: faultyRuleSet_def)
  have m1: "callMatchFunc ?r1 ?input = Inl (Thrown (Some ''NEED_ROW_DATA'') ''rec needed'')"
    by (simp add: needsRowRule_def callMatchFunc_def ownerMatch_def)
  have m2: "callMatchFunc ?r2 ?input = Inl (Thrown None ''boom'')"
    by (simp add: throwingRule_def callMatchFunc_def)
  have m3: "callMatchFunc ?r3 ?input = Inl (Thrown None ''rule.matchFunc is not a function'')"
    by (simp add: noPredicateRule_def callMatchFunc_def)
  note t1 = evaluateRule_error_contract [of specDeps faultyRuleSet ?input ?r1
              "Thrown (Some ''NEED_ROW_DATA'') ''rec needed''"
              "(allBits Unset) \<lparr> read := Allow, perm_update := Deny \<rparr>"]
  note t2 = evaluateRule_error_contract [of specDeps faultyRuleSet ?input ?r2
              "Thrown None ''boom''" "allBits Unset"]
  note t3 = evaluateRule_error_contract [of specDeps faultyRuleSet ?input ?r3
              "Thrown None ''rule.matchFunc is not a function''" "allBits Unset"]
  from t1 m1 have d1: "ruleDelta ?r1 ?input = Some (makePartialPermissions (permissions ?r1))"
    and w1: "ruleWarning faultyRuleSet ?r1 ?input = None" by simp_all
  from t2 m2 have d2: "ruleDelta ?r2 ?input = None"
    and w2: "ruleWarning faultyRuleSet ?r2 ?input
               = Some (warnMessage (rs_tableId faultyRuleSet) ''boom'')" by simp_all
  from t3 m3 have d3: "ruleDelta ?r3 ?input = None"
    and w3: "ruleWarning faultyRuleSet ?r3 ?input
               = Some (warnMessage (rs_tableId faultyRuleSet) ''rule.matchFunc is not a function'')"
    by simp_all
  from t1 have ev: "evaluateRule specDeps faultyRuleSet ?input =
     (mergePartialPermissions specDeps
        (foldl (\<lambda>p r. case ruleDelta r ?input of None \<Rightarrow> p
                       | Some d \<Rightarrow> mergePartialPermissions specDeps p d)
           emptyPermissionSet (body faultyRuleSet))
        (defaultPermissions faultyRuleSet),
      List.map_filter (\<lambda>r. ruleWarning faultyRuleSet r ?input) (body faultyRuleSet))"
    by blast
  from t1 have rd: "read (makePartialPermissions ((allBits Unset) \<lparr> read := Allow, perm_update := Deny \<rparr>))
                     = weaken (read ((allBits Unset) \<lparr> read := Allow, perm_update := Deny \<rparr>))"
    by (simp add: bitSelectors_def)
  have p1: "permissions ?r1 = (allBits Unset) \<lparr> read := Allow, perm_update := Deny \<rparr>"
    and dp: "defaultPermissions faultyRuleSet = allBits Unset"
    and tid: "rs_tableId faultyRuleSet = ''T''"
    by (simp_all add: faultyRuleSet_def needsRowRule_def)
  have "evaluateRule specDeps faultyRuleSet ?input =
          ((allBits Unset) \<lparr> read := AllowSome, perm_update := DenySome \<rparr>,
           [''ACLRule for T failed: boom'',
            ''ACLRule for T failed: rule.matchFunc is not a function''])"
    apply (subst ev)
    apply (simp add: b)
    apply (simp add: d1 d2 d3 w1 w2 w3 List.map_filter_simps p1 dp tid warnMessage_def
             makePartialPermissions_def mergePermissions_def spec_merge allBits_eq
             emptyPermissionSet_eq specCombine_def)
    done
  with rd show ?thesis by (simp add: allBits_eq)
qed

text \<open>
  C5 fails on the code. On a new engine, whose flag \<^verbatim>\<open>haveRules\<close> is false, \<^verbatim>\<open>update()\<close>
  with a doc-level rule set that lists a column raises the error and leaves the flag
  true: the state after the failed call is not the state before it. And \<^verbatim>\<open>update()\<close> with
  two user-attribute rules of one name raises nothing, and keeps one of them.
\<close>

theorem update_failure_not_atomic:
  "haveRules freshEngine = False
   \<and> update specDeps docLevelColumnRules freshEngine
       = (Some (Error ''Invalid rule for tableId *, colIds A''),
          freshEngine \<lparr> haveRules := True \<rparr>)
   \<and> fst (update specDeps duplicateAttributeRules (freshEngine \<lparr> fetchQueryFromDB := staffStore \<rparr>))
       = None
   \<and> map fst (userAttributeRules
        (snd (update specDeps duplicateAttributeRules
                (freshEngine \<lparr> fetchQueryFromDB := staffStore \<rparr>)))) = [''office'']"
proof -
  have a: "update specDeps docLevelColumnRules freshEngine
             = (Some (Error ''Invalid rule for tableId *, colIds A''),
                freshEngine \<lparr> haveRules := True \<rparr>)"
    by (simp add: update_def docLevelColumnRules_def updateStep_def colScopeString_def
          joinComma_def)
  have b: "update specDeps duplicateAttributeRules (freshEngine \<lparr> fetchQueryFromDB := staffStore \<rparr>)
             = (None,
                freshEngine \<lparr> fetchQueryFromDB := staffStore,
                  userAttributeRules :=
                    [(''office'', \<lparr> ua_name = ''office'', ua_tableId = ''People'',
                                     lookupColId = ''Email'', charId = ''Email'' \<rparr>)],
                  characteristicTables :=
                    [(''office'',
                      \<lparr> ct_tableId = ''People'', ct_colId = ''Email'',
                        rowNums = [(''bob'', 0)],
                        ct_data = \<lparr> td_tableId = ''People'', td_rowIds = [1],
                                    td_columns = [(''Email'', [CStr ''bob''])] \<rparr> \<rparr>)] \<rparr>)"
    by (simp add: update_def duplicateAttributeRules_def updateCharacteristicTables_def
          updateCharacteristicTable_def staffStore_def normalizeValue_def specDeps_def
          freshEngine_def newGranularAccess_def)
  show ?thesis by (simp add: a b freshEngine_fields)
qed

text \<open>
  C6. For an action of the table-action set whose second element is a table name: when
  the name starts with \<^verbatim>\<open>_grist_\<close>, the action is allowed exactly when the session has no
  nuanced access; otherwise it is allowed exactly when the read verdict of the table is
  \<^verbatim>\<open>allow\<close>. An action whose name is in none of the recognised sets is denied.
\<close>

theorem canApplyUserAction_policy:
  "(name \<in> set ACTION_WITH_TABLE_ID \<longrightarrow>
      canApplyUserAction D ga s (JArray (JStr name # JStr tableId # rest)) =
        (if take 7 tableId = ''_grist_'' then Inr (\<not> hasNuancedAccess ga s)
         else (case getTableAccess D ga s tableId of
                 Inl e \<Rightarrow> Inl e
               | Inr pset \<Rightarrow> Inr (read pset = Allow))))
   \<and> (name \<notin> set (OK_ACTIONS @ SPECIAL_ACTIONS @ SURPRISING_ACTIONS @ ACTION_WITH_TABLE_ID
                     @ [''ApplyUndoActions'', ''ApplyDocActions'']) \<longrightarrow>
      canApplyUserAction D ga s (JArray (JStr name # rest)) = Inr False)"
  by (auto simp: ACTION_WITH_TABLE_ID_def OK_ACTIONS_def SPECIAL_ACTIONS_def SURPRISING_ACTIONS_def
       canApplyTableAction_def rbind_def Let_def)

theorem canApplyUserAction_policy_witness:
  "canApplyUserAction specDeps secretColumnEngine (sessionOf Viewers)
     (JArray [JStr ''UpdateRecord'', JStr ''T'', JNum 1]) = Inr False
   \<and> canApplyUserAction specDeps secretColumnEngine (sessionOf Owners)
       (JArray [JStr ''UpdateRecord'', JStr ''T'', JNum 1]) = Inr True
   \<and> canApplyUserAction specDeps secretColumnEngine (sessionOf Editors)
       (JArray [JStr ''UpdateRecord'', JStr ''_grist_Tables'', JNum 1]) = Inr False
   \<and> canApplyUserAction specDeps secretColumnEngine (sessionOf Owners)
       (JArray [JStr ''Frobnicate'', JStr ''T'']) = Inr False"
  using canApplyUserAction_policy [of "''UpdateRecord''" specDeps secretColumnEngine
          "sessionOf Viewers" "''T''" "[JNum 1]"]
        canApplyUserAction_policy [of "''UpdateRecord''" specDeps secretColumnEngine
          "sessionOf Owners" "''T''" "[JNum 1]"]
        canApplyUserAction_policy [of "''UpdateRecord''" specDeps secretColumnEngine
          "sessionOf Editors" "''_grist_Tables''" "[JNum 1]"]
        canApplyUserAction_policy [of "''Frobnicate''" specDeps secretColumnEngine
          "sessionOf Owners" "''T''" "[JStr ''T'']"]
  by (simp add: secretColumn_tableAccess allBits_eq secretColumn_nuanced
        ACTION_WITH_TABLE_ID_def OK_ACTIONS_def SPECIAL_ACTIONS_def SURPRISING_ACTIONS_def)

text \<open>
  C7, as the claim states it, fails: on a new engine, which has no user-authored rule set,
  a session without access gets an empty list for a bundle of one action, and table data
  with every column removed.
\<close>

theorem no_rules_passthrough_counterexample:
  "\<not> haveRules freshEngine
   \<and> filterOutgoingDocActions specDeps freshEngine (sessionOf NoAccess)
        [AddRecord ''T'' 1 [(''x'', CNum 1)]] = Inr []
   \<and> filterData specDeps freshEngine (sessionOf NoAccess) ownedRows
        = Inr (ownedRows \<lparr> td_columns := [] \<rparr>)"
proof -
  obtain u where u: "getUser specDeps freshEngine (sessionOf NoAccess) = Inr u"
    and a: "map_of u ''Access'' = Some (Cell (roleCell NoAccess))"
    by (rule fresh_session)
  have "filterOutgoingDocActions specDeps freshEngine (sessionOf NoAccess)
          [AddRecord ''T'' 1 [(''x'', CNum 1)]] = Inr []"
    using u by (simp add: filterOutgoingDocActions_def pruneOutgoingDocAction_def getAccess_def
        fresh_verdicts(1) [OF a] allBits_eq)
  moreover have "filterData specDeps freshEngine (sessionOf NoAccess) ownedRows
                   = Inr (ownedRows \<lparr> td_columns := [] \<rparr>)"
    using u by (simp add: filterData_def getAccess_def asDocAction_def fresh_verdicts [OF a]
        allBits_eq filterColumns_def colReadable_def)
  ultimately show ?thesis by (simp add: freshEngine_fields)
qed

text \<open>
  C7, amended. When \<^verbatim>\<open>haveRules\<close> is false, for every session whose role is owners,
  editors or viewers and whose user record can be built, \<^verbatim>\<open>filterOutgoingDocActions\<close>
  returns the input actions unchanged and \<^verbatim>\<open>filterData\<close> leaves the table data unchanged;
  the operators of the permission lattice are any that satisfy what the spec states of them.
\<close>

theorem no_rules_passthrough:
  assumes "reachable D ga" and "\<not> haveRules ga" and "latticeReadLaws D"
    and "sessionAccess s \<noteq> NoAccess" and "getUser D ga s = Inr u"
  shows "filterOutgoingDocActions D ga s B = Inr B \<and> filterData D ga s data = Inr data"
proof -
  from assms(1,2) have empty: "columnRuleSets ga = []" "tableColumnMap ga = []"
    "tableRuleSets ga = []" "defaultRuleSet ga = DEFAULT_RULE_SET D"
    by (auto dest!: reachable_storeInv simp: storeInv_def)
  let ?permInfo = "\<lparr> in_user = u, in_rec = None \<rparr>"
  from assms(5) have acc: "getAccess D ga s = Inr ?permInfo" by (simp add: getAccess_def)
  have doc: "read (getDocDefaultAccess D ga ?permInfo) = Allow"
    using docDefault_read [OF assms(3,4) getUser_Access [OF assms(5)]]
    by (simp add: getDocDefaultAccess_def getDocDefaultRuleSet_def empty)
  have tbl: "read (pi_getTableAccess D ga ?permInfo t) = Allow" for t
    using doc by (simp add: pi_getTableAccess_def getAllColumnRuleSets_def
        getTableDefaultAccess_def getTableDefaultRuleSet_def empty)
  have col: "colReadable D ga ?permInfo t c" for t c
    using doc by (simp add: colReadable_def pi_getColumnAccess_def getColumnRuleSet_def
        getTableDefaultAccess_def getTableDefaultRuleSet_def empty)
  have "pruneOutgoingDocAction D ga s a i = Inr [a]" for a i
    using acc tbl by (simp add: pruneOutgoingDocAction_def)
  then have "mapResult (\<lambda>p. pruneOutgoingDocAction D ga s (snd p) (fst p)) (enumerate 0 B)
               = Inr (map (\<lambda>a. [a]) B)"
    by (intro mapResult_singletons) simp
  then have "filterOutgoingDocActions D ga s B = Inr B"
    by (simp add: filterOutgoingDocActions_def concat_singletons)
  moreover have "filterData D ga s data = Inr data"
    using acc tbl col by (simp add: filterData_def filterColumns_def)
  ultimately show ?thesis by simp
qed

theorem no_rules_passthrough_witness:
  "filterOutgoingDocActions specDeps freshEngine (sessionOf Viewers)
     [AddRecord ''T'' 1 [(''x'', CNum 1)]] = Inr [AddRecord ''T'' 1 [(''x'', CNum 1)]]
   \<and> filterData specDeps freshEngine (sessionOf Viewers) ownedRows = Inr ownedRows"
proof -
  obtain u where u: "getUser specDeps freshEngine (sessionOf Viewers) = Inr u"
    by (rule fresh_session)
  have r: "sessionAccess (sessionOf Viewers) \<noteq> NoAccess" by (simp add: sessionOf_def)
  have h: "\<not> haveRules freshEngine" by (simp add: freshEngine_fields)
  from no_rules_passthrough [OF reachable_freshEngine h specDeps_laws r u] show ?thesis .
qed

text \<open>
  C8. \<^verbatim>\<open>filterMetaTables\<close> is idempotent: when it returns tables for a session, applying it
  to these tables for the same session returns them unchanged.
\<close>

theorem filterMetaTables_idempotent:
  assumes "filterMetaTables D ga s M = Inr M'"
  shows "filterMetaTables D ga s M' = Inr M'"
proof -
  from assms obtain all where a: "canReadEverything D ga s = Inr all"
    by (auto simp: filterMetaTables_def rbind_eq_Inr)
  show ?thesis
  proof (cases all)
    case True
    with a assms show ?thesis by (simp add: filterMetaTables_def)
  next
    case False
    with a assms obtain permInfo where p: "getAccess D ga s = Inr permInfo"
      and c: "censorAll (computeCensoredIds D ga permInfo) M = Inr M'"
      by (auto simp: filterMetaTables_def rbind_eq_Inr)
    from censorAll_twice [OF c] a False p show ?thesis
      by (simp add: filterMetaTables_def)
  qed
qed

theorem filterMetaTables_idempotent_witness:
  "filterMetaTables specDeps secretTableEngine (sessionOf Viewers) secretMetaTables
     = Inr censoredMetaTables
   \<and> filterMetaTables specDeps secretTableEngine (sessionOf Viewers) censoredMetaTables
     = Inr censoredMetaTables"
proof -
  obtain u where u: "getUser specDeps secretTableEngine (sessionOf Viewers) = Inr u"
    by (rule secretTable_session)
  have "read (pi_getFullAccess specDeps secretTableEngine \<lparr> in_user = u, in_rec = None \<rparr>) \<noteq> Allow"
    by (simp add: pi_getFullAccess_def secretTableEngine_fields secretTable_verdict allBits_eq
          fullBits_def)
  with u have first: "filterMetaTables specDeps secretTableEngine (sessionOf Viewers) secretMetaTables
                        = Inr censoredMetaTables"
    by (simp add: filterMetaTables_def canReadEverything_def getAccess_def
          secretTable_censoredIds secretTable_censorAll)
  from first filterMetaTables_idempotent [OF first] show ?thesis by simp
qed

text \<open>
  C9. When \<^verbatim>\<open>canReadEverything\<close> is false for the session, \<^verbatim>\<open>filterActionGroup\<close> returns the
  group as it is; when it is true, it returns a copy with an empty action summary and
  an empty description.
\<close>

theorem filterActionGroup_as_written:
  "(canReadEverything D ga s = Inr False \<longrightarrow> filterActionGroup D emptySummary ga s g = Inr g)
   \<and> (canReadEverything D ga s = Inr True \<longrightarrow>
        filterActionGroup D emptySummary ga s g =
          Inr (g \<lparr> actionSummary := emptySummary, desc := [] \<rparr>))"
  by (simp add: filterActionGroup_def allowActionGroup_def)

theorem filterActionGroup_as_written_witness:
  "filterActionGroup specDeps [] secretColumnEngine (sessionOf Viewers)
     \<lparr> actionSummary = [''renamed T''], desc = ''edit'' \<rparr>
     = Inr \<lparr> actionSummary = [''renamed T''], desc = ''edit'' \<rparr>
   \<and> filterActionGroup specDeps [] secretColumnEngine (sessionOf Owners)
       \<lparr> actionSummary = [''renamed T''], desc = ''edit'' \<rparr>
       = Inr \<lparr> actionSummary = [], desc = [] \<rparr>"
  using filterActionGroup_as_written [of specDeps secretColumnEngine "sessionOf Viewers" "[]"
          "\<lparr> actionSummary = [''renamed T''], desc = ''edit'' \<rparr>"]
        filterActionGroup_as_written [of specDeps secretColumnEngine "sessionOf Owners" "[]"
          "\<lparr> actionSummary = [''renamed T''], desc = ''edit'' \<rparr>"]
  by (simp add: secretColumn_canReadEverything)

text \<open>
  C10. A session has access to a table exactly when the read verdict of the table is not
  \<^verbatim>\<open>deny\<close>, so a table whose verdict is \<^verbatim>\<open>mixed\<close> or \<^verbatim>\<open>mixedColumns\<close> counts as accessible;
  when the verdict cannot be computed, the same error is raised. Access to a query is
  access to its table.
\<close>

theorem hasTableAccess_iff_not_deny:
  "(getTableAccess D ga s t = Inr pset \<longrightarrow> hasTableAccess D ga s t = Inr (read pset \<noteq> Deny))
   \<and> (getTableAccess D ga s t = Inl e \<longrightarrow> hasTableAccess D ga s t = Inl e)
   \<and> hasQueryAccess D ga s q = hasTableAccess D ga s (q_tableId q)"
  by (simp add: hasTableAccess_def hasQueryAccess_def)

theorem hasTableAccess_iff_not_deny_witness:
  "hasTableAccess specDeps secretColumnEngine (sessionOf Viewers) ''T'' = Inr True
   \<and> hasTableAccess specDeps secretColumnEngine (sessionOf NoAccess) ''T'' = Inr False
   \<and> hasQueryAccess specDeps secretColumnEngine (sessionOf Viewers)
        \<lparr> q_tableId = ''T'', q_filters = [] \<rparr> = Inr True"
  using hasTableAccess_iff_not_deny [of specDeps secretColumnEngine "sessionOf Viewers" "''T''"
          "(allBits Deny) \<lparr> read := MixedColumns \<rparr>" TypeError
          "\<lparr> q_tableId = ''T'', q_filters = [] \<rparr>"]
        hasTableAccess_iff_not_deny [of specDeps secretColumnEngine "sessionOf NoAccess" "''T''"
          "allBits Deny" TypeError "\<lparr> q_tableId = ''T'', q_filters = [] \<rparr>"]
  by (simp add: secretColumn_tableAccess allBits_eq)

end
